theory Spec2Isabelle
  imports Main "HOL-Library.Word" "HOL-Library.Signed_Division"
begin

unbundle bit_operations_syntax

section \<open>Machine types\<close>

text \<open>
  The C integer types of the library: \<open>signed short\<close> is 16 bits, \<open>int\<close> and
  \<open>unsigned\<close> are 32 bits, \<open>char\<close> is a signed byte, \<open>ssize_t\<close> is 64 bits.
  Signed types are words read with \<open>sint\<close>. A \<open>float\<close> is only carried around
  (no float arithmetic is modelled), as its 32-bit pattern. A pointer is an address,
  \<open>None\<close> being \<open>NULL\<close>.
\<close>

type_synonym sshort = "16 word"
type_synonym cint = "32 word"
type_synonym uint = "32 word"
type_synonym uchar = "8 word"
type_synonym cchar = "8 word"
type_synonym ssize_t = "64 word"
type_synonym cfloat = "32 word"
type_synonym addr = nat
type_synonym ttf = nat

text \<open>Integer promotion of a \<open>signed short\<close>, and passing an \<open>int\<close> where a
  \<open>signed short\<close> parameter is expected (the low 16 bits are kept).\<close>

definition int_of_short :: "sshort \<Rightarrow> cint" where
  "int_of_short v = scast v"

definition short_of_int :: "cint \<Rightarrow> sshort" where
  "short_of_int v = ucast v"

text \<open>C's \<open>/\<close> on \<open>int\<close>: the quotient is truncated towards zero.\<close>

definition int_div :: "cint \<Rightarrow> cint \<Rightarrow> cint" where
  "int_div a b = word_of_int (sint a sdiv sint b)"

text \<open>What stops the process or is undefined behaviour in C.\<close>

datatype fault = Process_exit | Null_deref | Use_after_free | Out_of_bounds | Div_by_zero

type_synonym 'a result = "fault + 'a"

section \<open>Draw jobs (gfx\_draw.c)\<close>

record coord =
  coord_x :: sshort
  coord_y :: sshort

record clear_data =
  clear_colour :: uint

record arc_data =
  arc_x :: sshort
  arc_y :: sshort
  arc_radius :: sshort
  arc_start :: sshort
  arc_end :: sshort
  arc_colour :: uint

record ellipse_data =
  ellipse_x :: sshort
  ellipse_y :: sshort
  ellipse_rx :: sshort
  ellipse_ry :: sshort
  ellipse_colour :: uint

record rect_data =
  rect_x :: sshort
  rect_y :: sshort
  rect_w :: sshort
  rect_h :: sshort
  rect_colour :: uint

record circle_data =
  circle_x :: sshort
  circle_y :: sshort
  circle_radius :: sshort
  circle_colour :: uint

record line_data =
  line_x1 :: sshort
  line_y1 :: sshort
  line_x2 :: sshort
  line_y2 :: sshort
  line_thickness :: uchar
  line_colour :: uint

record poly_data =
  poly_points :: "coord list option"
  poly_n :: uint
  poly_colour :: uint

record triangle_data =
  triangle_points :: "coord list option"
  triangle_colour :: uint

record image_data =
  image_filename :: "string option"
  image_x :: sshort
  image_y :: sshort

record loaded_image_data =
  loaded_image_img :: "addr option"
  loaded_image_x :: sshort
  loaded_image_y :: sshort

record loaded_image_crop =
  crop_image :: "addr option"
  crop_x :: cint
  crop_y :: cint
  crop_c_x :: cint
  crop_c_y :: cint
  crop_c_w :: cint
  crop_c_h :: cint

record scaled_image_data =
  scaled_image :: image_data
  scaled_scale :: cfloat

record text_data =
  text_str :: "string option"
  text_x :: sshort
  text_y :: sshort
  text_colour :: uint
  text_font :: "ttf option"

record arrow_data =
  arrow_x1 :: sshort
  arrow_y1 :: sshort
  arrow_x2 :: sshort
  arrow_y2 :: sshort
  arrow_head_length :: sshort
  arrow_thickness :: uchar
  arrow_colour :: uint

text \<open>
  A \<open>draw_job_t\<close> node: the type tag together with the member of \<open>union data_u\<close>
  that the tag selects. \<open>DRAW_NONE\<close> is the node as \<open>_pushDrawJob\<close> links it:
  type zero and \<open>data\<close> still \<open>NULL\<close>.
\<close>

datatype draw_job =
    DRAW_NONE
  | DRAW_CLEAR clear_data
  | DRAW_ARC arc_data
  | DRAW_ELLIPSE ellipse_data
  | DRAW_TEXT text_data
  | DRAW_RECT rect_data
  | DRAW_FILLED_RECT rect_data
  | DRAW_CIRCLE circle_data
  | DRAW_LINE line_data
  | DRAW_POLY poly_data
  | DRAW_TRIANGLE triangle_data
  | DRAW_IMAGE image_data
  | DRAW_LOADED_IMAGE loaded_image_data
  | DRAW_LOADED_IMAGE_CROP loaded_image_crop
  | DRAW_SCALED_IMAGE scaled_image_data
  | DRAW_ARROW arrow_data

text \<open>The payloads as \<open>calloc\<close> leaves them.\<close>

definition zero_image :: image_data where
  "zero_image = \<lparr>image_filename = None, image_x = 0, image_y = 0\<rparr>"

definition zero_text :: text_data where
  "zero_text = \<lparr>text_str = None, text_x = 0, text_y = 0, text_colour = 0, text_font = None\<rparr>"

definition zero_poly :: poly_data where
  "zero_poly = \<lparr>poly_points = None, poly_n = 0, poly_colour = 0\<rparr>"

definition zero_triangle :: triangle_data where
  "zero_triangle = \<lparr>triangle_points = None, triangle_colour = 0\<rparr>"

definition zero_scaled_image :: scaled_image_data where
  "zero_scaled_image = \<lparr>scaled_image = zero_image, scaled_scale = 0\<rparr>"

definition zero_crop :: loaded_image_crop where
  "zero_crop = \<lparr>crop_image = None, crop_x = 0, crop_y = 0, crop_c_x = 0, crop_c_y = 0,
     crop_c_w = 0, crop_c_h = 0\<rparr>"

section \<open>Registry entries\<close>

text \<open>\<open>loaded_image_t\<close>; \<open>iaddr\<close> is the address of the node, which is what an
  image handle holds.\<close>

record loaded_image =
  iaddr :: addr
  img_filename :: string
  img_tex :: nat
  img_w :: cint
  img_h :: cint
  img_scale :: cfloat
  img_ref_count :: uint
  img_pending_free :: uchar

text \<open>\<open>struct gfx_font\<close> of gfx\_font.c with its \<open>struct gfx_font_ref\<close> inlined;
  \<open>faddr\<close> is the address of the node, which is what a \<open>font_handle_t\<close> holds.\<close>

record gfx_font =
  faddr :: addr
  font_path :: string
  font_name :: string
  font_font :: "ttf option"
  font_ref_count :: uint
  font_pending_free :: uint
  font_size :: uint

section \<open>What reaches the renderer\<close>

text \<open>
  One constructor for each drawing helper that \<open>vHandleDrawJob\<close> dispatches to, with
  the arguments the helper hands to SDL. \<open>Polygon\<close> and \<open>Triangle\<close> carry the
  coordinates that \<open>_drawPoly\<close> and \<open>_drawTriangle\<close> compute.
\<close>

datatype backend_call =
    Clear uint
  | Arc sshort sshort sshort sshort sshort uint
  | Ellipse sshort sshort sshort sshort uint
  | Text "string option" sshort sshort uint "ttf option"
  | Rect sshort sshort sshort sshort uint
  | Filled_rect sshort sshort sshort sshort uint
  | Circle sshort sshort sshort uint
  | Line sshort sshort sshort sshort uchar uint
  | Polygon "sshort list" "sshort list" uint sshort
  | Triangle sshort sshort sshort sshort sshort sshort uint
  | Image "string option" sshort sshort
  | Loaded_image addr sshort sshort
  | Loaded_image_crop addr sshort sshort sshort sshort sshort sshort
  | Scaled_image "string option" sshort sshort cfloat
  | Arrow sshort sshort sshort sshort sshort uchar uint

section \<open>The global state\<close>

text \<open>
  The static variables of gfx\_draw.c and gfx\_font.c. A linked list with a sentinel head
  is the list of its nodes after the sentinel, in link order. \<open>freed\<close> holds the
  addresses handed to \<open>free\<close>: a node of \<open>font_list\<close> whose address is in
  \<open>freed\<close> is still linked although its memory is gone. The last four fields record
  what the renderer and the font provider were asked to do.
\<close>

record gfx_state =
  job_list :: "draw_job list"
  global_offset_x :: cint
  global_offset_y :: cint
  loaded_images_list :: "loaded_image list"
  font_list_ref_count :: uint
  font_list :: "gfx_font list"
  cur_default_font :: "addr option"
  freed :: "addr list"
  closed_fonts :: "ttf option list"
  destroyed_textures :: "nat list"
  draw_trace :: "backend_call list"
  presented :: nat

text \<open>
  What the environment decides during a screen update: whether the caller holds the GL
  context, whether the frame limiter holds the update back, whether the offset mutex
  call reports success, the status SDL reports for a call, and whether the scratch
  arrays of \<open>_drawPoly\<close> could be allocated.
\<close>

record env =
  is_gl_thread :: bool
  fps_hold :: bool
  offset_lock_ok :: bool
  sdl_rc :: "backend_call \<Rightarrow> int"
  scratch_alloc :: bool

text \<open>The outcome of the allocations of one draw request: the job node, the
  \<open>union data_u\<close>, and the copied payload (string, point array or file name).\<close>

record allocs =
  job_alloc :: bool
  data_alloc :: bool
  payload_alloc :: bool

section \<open>The job queue\<close>

text \<open>\<open>_pushDrawJob\<close>: allocate a zeroed node and link it behind the last node of the
  list; \<open>None\<close> is the \<open>NULL\<close> returned when \<open>calloc\<close> fails.\<close>

definition pushDrawJob :: "bool \<Rightarrow> gfx_state \<Rightarrow> gfx_state option" where
  "pushDrawJob node_ok s =
     (if \<not> node_ok then None else Some (s\<lparr>job_list := job_list s @ [DRAW_NONE]\<rparr>))"

definition waitingDrawJobs :: "gfx_state \<Rightarrow> int" where
  "waitingDrawJobs s = (if job_list s = [] then 0 else 1)"

text \<open>\<open>popDrawJob\<close>: unlink and return the node behind the sentinel.\<close>

definition popDrawJob :: "gfx_state \<Rightarrow> draw_job option \<times> gfx_state" where
  "popDrawJob s =
     (case job_list s of
        [] \<Rightarrow> (None, s)
      | j # js \<Rightarrow> (Some j, s\<lparr>job_list := js\<rparr>))"

text \<open>Writing through the \<open>JOB\<close> pointer that \<open>_pushDrawJob\<close> returned: the node
  is the last of the list.\<close>

definition set_job :: "draw_job \<Rightarrow> gfx_state \<Rightarrow> gfx_state" where
  "set_job j s = s\<lparr>job_list := butlast (job_list s) @ [j]\<rparr>"

text \<open>
  The macro \<open>INIT_JOB(JOB, TYPE)\<close>. \<open>Inr None\<close> is its \<open>return -1\<close> when the
  node cannot be allocated; \<open>logCriticalError\<close> ends the process when the union
  cannot be allocated; otherwise the zeroed payload and the type are attached.
\<close>

definition INIT_JOB :: "allocs \<Rightarrow> draw_job \<Rightarrow> gfx_state \<Rightarrow> gfx_state option result" where
  "INIT_JOB al zero s =
     (case pushDrawJob (job_alloc al) s of
        None \<Rightarrow> Inr None
      | Some s1 \<Rightarrow>
          if \<not> data_alloc al then Inl Process_exit
          else Inr (Some (set_job zero s1)))"

section \<open>The font registry (gfx\_font.c)\<close>

text \<open>
  What loading a font needs from outside: the fonts directory, the length limit, the
  node \<open>calloc\<close> returns, whether the path buffer could be allocated, and the Font
  Provider's \<open>TTF_OpenFont\<close>.
\<close>

record font_env =
  fonts_dir :: string
  MAX_FONT_NAME_LENGTH :: nat
  node_alloc :: "addr option"
  path_alloc :: bool
  TTF_OpenFont :: "string \<Rightarrow> cint \<Rightarrow> ttf option"

definition getFontPath :: "font_env \<Rightarrow> string \<Rightarrow> string option" where
  "getFontPath fe fname =
     (if length (fonts_dir fe) + length fname > MAX_FONT_NAME_LENGTH fe then None
      else if \<not> path_alloc fe then None
      else Some (fonts_dir fe @ fname))"

definition loadFont :: "font_env \<Rightarrow> string \<Rightarrow> ssize_t \<Rightarrow> gfx_font option" where
  "loadFont fe fname sz =
     (case node_alloc fe of
        None \<Rightarrow> None
      | Some a \<Rightarrow>
          (case getFontPath fe fname of
             None \<Rightarrow> None
           | Some p \<Rightarrow>
               (case TTF_OpenFont fe p (ucast sz) of
                  None \<Rightarrow> None
                | Some t \<Rightarrow>
                    Some \<lparr>faddr = a, font_path = p, font_name = drop (length (fonts_dir fe)) p,
                      font_font = Some t, font_ref_count = 0, font_pending_free = 0,
                      font_size = ucast sz\<rparr>)))"

definition gfxFontInit :: "font_env \<Rightarrow> string \<Rightarrow> ssize_t \<Rightarrow> gfx_state \<Rightarrow> int \<times> gfx_state" where
  "gfxFontInit fe default_font default_size s =
     (case loadFont fe default_font default_size of
        None \<Rightarrow> (-1, s\<lparr>font_list := []\<rparr>)
      | Some n \<Rightarrow> (0, s\<lparr>font_list := [n], cur_default_font := Some (faddr n),
                       freed := removeAll (faddr n) (freed s)\<rparr>))"

text \<open>\<open>gfxFontDeleteFont\<close>: close the backend font and free the node.\<close>

definition gfxFontDeleteFont :: "gfx_font \<Rightarrow> gfx_state \<Rightarrow> gfx_state" where
  "gfxFontDeleteFont f s =
     s\<lparr>closed_fonts := closed_fonts s @ [font_font f], freed := freed s @ [faddr f]\<rparr>"

text \<open>
  The loop shared by \<open>gfxFontPutFont\<close> and \<open>gfxFontPutFontHandle\<close>, on the nodes
  after the sentinel: \<open>m\<close> is the test that selects the entry, \<open>fr\<close> the freed
  addresses. At the first match the count is decremented; if it is then zero and the
  entry is pending, the entry is unlinked only \<open>if (iterator->next)\<close>, and deleted
  in any case. The result is the new chain and the deleted node, if any.
\<close>

fun put_font_nodes ::
  "(gfx_font \<Rightarrow> bool) \<Rightarrow> addr list \<Rightarrow> gfx_font list \<Rightarrow> (gfx_font list \<times> gfx_font option) result"
where
  "put_font_nodes m fr [] = Inr ([], None)"
| "put_font_nodes m fr (f # fs) =
     (if faddr f \<in> set fr then Inl Use_after_free
      else if m f then
        (let f' = f\<lparr>font_ref_count := font_ref_count f - 1\<rparr> in
         if font_ref_count f' = 0 \<and> font_pending_free f' \<noteq> 0
         then Inr (if fs \<noteq> [] then fs else [f'], Some f')
         else Inr (f' # fs, None))
      else
        (case put_font_nodes m fr fs of
           Inl e \<Rightarrow> Inl e
         | Inr (fs', d) \<Rightarrow> Inr (f # fs', d)))"

definition put_font :: "(gfx_font \<Rightarrow> bool) \<Rightarrow> gfx_state \<Rightarrow> gfx_state result" where
  "put_font m s =
     (case put_font_nodes m (freed s) (font_list s) of
        Inl e \<Rightarrow> Inl e
      | Inr (fs, d) \<Rightarrow>
          (case d of
             None \<Rightarrow> Inr (s\<lparr>font_list := fs\<rparr>)
           | Some f \<Rightarrow> Inr (gfxFontDeleteFont f (s\<lparr>font_list := fs\<rparr>))))"

text \<open>
  \<open>gfxFontPutFont\<close> looks for the entry by its \<open>TTF_Font\<close> pointer. The loop starts
  at the sentinel \<open>font_list\<close>, whose font pointer is \<open>NULL\<close> and whose
  \<open>pending_free\<close> is never set: a \<open>NULL\<close> argument matches the sentinel and
  decrements its count.
\<close>

definition gfxFontPutFont :: "ttf option \<Rightarrow> gfx_state \<Rightarrow> gfx_state result" where
  "gfxFontPutFont fnt s =
     (if fnt = None then Inr (s\<lparr>font_list_ref_count := font_list_ref_count s - 1\<rparr>)
      else put_font (\<lambda>f. font_font f = fnt) s)"

text \<open>
  \<open>gfxFontPutFontHandle\<close> looks for the entry by the address of its node. No node,
  the sentinel included, has the address \<open>NULL\<close>: with a \<open>NULL\<close> handle the loop
  walks the whole list without a match, reading every node on its way.
\<close>

definition gfxFontPutFontHandle :: "addr option \<Rightarrow> gfx_state \<Rightarrow> gfx_state result" where
  "gfxFontPutFontHandle h s =
     (case h of
        None \<Rightarrow> put_font (\<lambda>f. False) s
      | Some a \<Rightarrow> put_font (\<lambda>f. faddr f = a) s)"

text \<open>Reading or writing through a pointer to a font node: the node must be linked and
  not freed.\<close>

definition font_at :: "addr \<Rightarrow> gfx_state \<Rightarrow> gfx_font option" where
  "font_at a s =
     (if a \<in> set (freed s) then None else find (\<lambda>f. faddr f = a) (font_list s))"

definition update_font :: "addr \<Rightarrow> (gfx_font \<Rightarrow> gfx_font) \<Rightarrow> gfx_state \<Rightarrow> gfx_state" where
  "update_font a u s =
     s\<lparr>font_list := map (\<lambda>f. if faddr f = a then u f else f) (font_list s)\<rparr>"

definition gfxFontGetCurFont :: "gfx_state \<Rightarrow> (ttf option \<times> gfx_state) result" where
  "gfxFontGetCurFont s =
     (case cur_default_font s of
        None \<Rightarrow> Inl Null_deref
      | Some a \<Rightarrow>
          (case font_at a s of
             None \<Rightarrow> Inl Use_after_free
           | Some f \<Rightarrow>
               Inr (font_font f,
                    update_font a (\<lambda>f. f\<lparr>font_ref_count := font_ref_count f + 1\<rparr>) s)))"

definition gfxFontGetCurFontHandle :: "gfx_state \<Rightarrow> (addr option \<times> gfx_state) result" where
  "gfxFontGetCurFontHandle s =
     (case cur_default_font s of
        None \<Rightarrow> Inl Null_deref
      | Some a \<Rightarrow>
          (case font_at a s of
             None \<Rightarrow> Inl Use_after_free
           | Some f \<Rightarrow>
               Inr (Some a,
                    update_font a (\<lambda>f. f\<lparr>font_ref_count := font_ref_count f + 1\<rparr>) s)))"

text \<open>\<open>_appendFont\<close>: walk to the last node, reading every \<open>next\<close> pointer on the
  way, and link what \<open>_loadFont\<close> returns.\<close>

definition appendFont ::
  "font_env \<Rightarrow> string \<Rightarrow> ssize_t \<Rightarrow> gfx_state \<Rightarrow> (gfx_font option \<times> gfx_state) result"
where
  "appendFont fe fname sz s =
     (if list_ex (\<lambda>f. faddr f \<in> set (freed s)) (font_list s) then Inl Use_after_free
      else
        (case loadFont fe fname sz of
           None \<Rightarrow> Inr (None, s)
         | Some n \<Rightarrow>
             Inr (Some n, s\<lparr>font_list := font_list s @ [n],
                            freed := removeAll (faddr n) (freed s)\<rparr>)))"

definition gfxFontLoadFont ::
  "font_env \<Rightarrow> ssize_t \<Rightarrow> string \<Rightarrow> ssize_t \<Rightarrow> gfx_state \<Rightarrow> (int \<times> gfx_state) result"
where
  "gfxFontLoadFont fe default_size fname sz s =
     (case appendFont fe fname (if sz \<noteq> 0 then sz else default_size) s of
        Inl e \<Rightarrow> Inl e
      | Inr (None, s1) \<Rightarrow> Inr (-1, s1)
      | Inr (Some n, s1) \<Rightarrow> Inr (0, s1))"

definition gfxFontSelectFontFromHandle :: "addr option \<Rightarrow> gfx_state \<Rightarrow> (int \<times> gfx_state) result" where
  "gfxFontSelectFontFromHandle h s =
     (case h of
        None \<Rightarrow> (if list_ex (\<lambda>f. faddr f \<in> set (freed s)) (font_list s)
                 then Inl Use_after_free else Inr (-1, s))
      | Some a \<Rightarrow>
          (case find (\<lambda>f. faddr f = a \<or> faddr f \<in> set (freed s)) (font_list s) of
             None \<Rightarrow> Inr (-1, s)
           | Some f \<Rightarrow>
               if faddr f = a then Inr (0, s\<lparr>cur_default_font := Some a\<rparr>)
               else Inl Use_after_free))"

text \<open>
  \<open>gfxFontSetSize\<close>. With no reference outstanding the backend font is closed and
  reopened in place; otherwise the entry is marked pending and a new entry, loaded at
  the new size, becomes the default. The size test compares the entry's
  \<open>unsigned\<close> size with the \<open>ssize_t\<close> argument.
\<close>

definition gfxFontSetSize :: "font_env \<Rightarrow> ssize_t \<Rightarrow> gfx_state \<Rightarrow> (int \<times> gfx_state) result" where
  "gfxFontSetSize fe new_size s =
     (case cur_default_font s of
        None \<Rightarrow> Inr (-1, s)
      | Some a \<Rightarrow>
          (case font_at a s of
             None \<Rightarrow> Inl Use_after_free
           | Some cur \<Rightarrow>
               if ucast (font_size cur) = new_size then Inr (0, s)
               else if font_ref_count cur = 0 then
                 (let s1 = s\<lparr>closed_fonts := closed_fonts s @ [font_font cur]\<rparr> in
                  case TTF_OpenFont fe (font_path cur) (ucast new_size) of
                    None \<Rightarrow> Inr (-1, s1)
                  | Some nf \<Rightarrow>
                      Inr (0, update_font a
                                (\<lambda>f. f\<lparr>font_font := Some nf, font_size := ucast new_size\<rparr>) s1))
               else
                 (let s1 = update_font a (\<lambda>f. f\<lparr>font_pending_free := 1\<rparr>) s in
                  case appendFont fe (font_name cur) new_size s1 of
                    Inl e \<Rightarrow> Inl e
                  | Inr (None, s2) \<Rightarrow> Inr (-1, s2\<lparr>cur_default_font := None\<rparr>)
                  | Inr (Some n, s2) \<Rightarrow> Inr (0, s2\<lparr>cur_default_font := Some (faddr n)\<rparr>))))"

section \<open>The image registry\<close>

definition image_at :: "addr option \<Rightarrow> gfx_state \<Rightarrow> loaded_image result" where
  "image_at h s =
     (case h of
        None \<Rightarrow> Inl Null_deref
      | Some a \<Rightarrow>
          (case find (\<lambda>i. iaddr i = a) (loaded_images_list s) of
             None \<Rightarrow> Inl Use_after_free
           | Some i \<Rightarrow> Inr i))"

definition update_image :: "addr \<Rightarrow> (loaded_image \<Rightarrow> loaded_image) \<Rightarrow> gfx_state \<Rightarrow> gfx_state" where
  "update_image a u s =
     s\<lparr>loaded_images_list := map (\<lambda>i. if iaddr i = a then u i else i) (loaded_images_list s)\<rparr>"

text \<open>
  \<open>freeLoadedImage\<close>: look for the node the handle points to; unlink it, release its
  surface, stream and texture, free it and set the handle to \<open>NULL\<close>. With a
  \<open>NULL\<close> handle the search stops at the last node, whose \<open>next\<close> is then equal
  to the handle, and \<open>iterator->next->next\<close> reads through \<open>NULL\<close>. The result is
  the return value, the handle and the state.
\<close>

definition remove_image :: "addr \<Rightarrow> loaded_image list \<Rightarrow> loaded_image list" where
  "remove_image a l =
     takeWhile (\<lambda>i. iaddr i \<noteq> a) l @ tl (dropWhile (\<lambda>i. iaddr i \<noteq> a) l)"

definition freeLoadedImage ::
  "addr option \<Rightarrow> gfx_state \<Rightarrow> (int \<times> addr option \<times> gfx_state) result"
where
  "freeLoadedImage h s =
     (case h of
        None \<Rightarrow> Inl Null_deref
      | Some a \<Rightarrow>
          (case find (\<lambda>i. iaddr i = a) (loaded_images_list s) of
             None \<Rightarrow> Inr (-1, h, s)
           | Some i \<Rightarrow>
               Inr (0, None,
                    s\<lparr>loaded_images_list := remove_image a (loaded_images_list s),
                      destroyed_textures := destroyed_textures s @ [img_tex i],
                      freed := freed s @ [a]\<rparr>)))"

text \<open>\<open>vPutLoadedImage\<close>: drop one reference; free the image when it is pending and
  the count is zero.\<close>

definition vPutLoadedImage :: "addr option \<Rightarrow> gfx_state \<Rightarrow> gfx_state result" where
  "vPutLoadedImage h s =
     (case image_at h s of
        Inl e \<Rightarrow> Inl e
      | Inr i \<Rightarrow>
          (let s1 = update_image (iaddr i) (\<lambda>i. i\<lparr>img_ref_count := img_ref_count i - 1\<rparr>) s in
           if img_pending_free i \<noteq> 0 \<and> img_ref_count i - 1 = 0
           then (case freeLoadedImage h s1 of
                   Inl e \<Rightarrow> Inl e
                 | Inr (r, h', s2) \<Rightarrow> Inr s2)
           else Inr s1))"

text \<open>\<open>gfxDrawFreeLoadedImage\<close> takes a pointer to the caller's handle; the handle
  is returned with the state.\<close>

definition gfxDrawFreeLoadedImage ::
  "addr option \<Rightarrow> gfx_state \<Rightarrow> (int \<times> addr option \<times> gfx_state) result"
where
  "gfxDrawFreeLoadedImage h s =
     (case image_at h s of
        Inl e \<Rightarrow> Inl e
      | Inr i \<Rightarrow>
          if img_ref_count i = 0 then freeLoadedImage h s
          else Inr (0, h, update_image (iaddr i) (\<lambda>i. i\<lparr>img_pending_free := 1\<rparr>) s))"

section \<open>Dispatching a job\<close>

definition emit :: "backend_call \<Rightarrow> gfx_state \<Rightarrow> gfx_state" where
  "emit c s = s\<lparr>draw_trace := draw_trace s @ [c]\<rparr>"

text \<open>\<open>v + offset\<close> for a \<open>signed short\<close> field, computed in \<open>int\<close> and passed to
  a \<open>signed short\<close> parameter.\<close>

definition add_offset :: "sshort \<Rightarrow> cint \<Rightarrow> sshort" where
  "add_offset v off = short_of_int (int_of_short v + off)"

text \<open>The helpers that draw and return 0 whatever SDL reports.\<close>

definition clearDisplay :: "uint \<Rightarrow> gfx_state \<Rightarrow> (int \<times> gfx_state) result" where
  "clearDisplay colour s = Inr (0, emit (Clear colour) s)"

definition drawRectangle ::
  "sshort \<Rightarrow> sshort \<Rightarrow> sshort \<Rightarrow> sshort \<Rightarrow> uint \<Rightarrow> gfx_state \<Rightarrow> (int \<times> gfx_state) result" where
  "drawRectangle x y w h colour s = Inr (0, emit (Rect x y w h colour) s)"

definition drawFilledRectangle ::
  "sshort \<Rightarrow> sshort \<Rightarrow> sshort \<Rightarrow> sshort \<Rightarrow> uint \<Rightarrow> gfx_state \<Rightarrow> (int \<times> gfx_state) result" where
  "drawFilledRectangle x y w h colour s = Inr (0, emit (Filled_rect x y w h colour) s)"

definition drawArc ::
  "sshort \<Rightarrow> sshort \<Rightarrow> sshort \<Rightarrow> sshort \<Rightarrow> sshort \<Rightarrow> uint \<Rightarrow> gfx_state
     \<Rightarrow> (int \<times> gfx_state) result" where
  "drawArc x y radius start en colour s = Inr (0, emit (Arc x y radius start en colour) s)"

definition drawEllipse ::
  "sshort \<Rightarrow> sshort \<Rightarrow> sshort \<Rightarrow> sshort \<Rightarrow> uint \<Rightarrow> gfx_state \<Rightarrow> (int \<times> gfx_state) result" where
  "drawEllipse x y rx ry colour s = Inr (0, emit (Ellipse x y rx ry colour) s)"

definition drawCircle ::
  "sshort \<Rightarrow> sshort \<Rightarrow> sshort \<Rightarrow> uint \<Rightarrow> gfx_state \<Rightarrow> (int \<times> gfx_state) result" where
  "drawCircle x y radius colour s = Inr (0, emit (Circle x y radius colour) s)"

definition drawLine ::
  "sshort \<Rightarrow> sshort \<Rightarrow> sshort \<Rightarrow> sshort \<Rightarrow> uchar \<Rightarrow> uint \<Rightarrow> gfx_state
     \<Rightarrow> (int \<times> gfx_state) result" where
  "drawLine x1 y1 x2 y2 thickness colour s =
     Inr (0, emit (Line x1 y1 x2 y2 thickness colour) s)"

text \<open>\<open>_drawPoly\<close> reads \<open>points[i]\<close> and writes its two scratch arrays for every
  \<open>i < n\<close>; its colour parameter is a \<open>signed short\<close>.\<close>

definition drawPoly ::
  "env \<Rightarrow> coord list option \<Rightarrow> uint \<Rightarrow> cint \<Rightarrow> cint \<Rightarrow> sshort \<Rightarrow> gfx_state
     \<Rightarrow> (int \<times> gfx_state) result" where
  "drawPoly e points n x_offset y_offset colour s =
     (if n = 0 then Inr (0, emit (Polygon [] [] n colour) s)
      else
        (case points of
           None \<Rightarrow> Inl Null_deref
         | Some ps \<Rightarrow>
             if length ps < unat n then Inl Out_of_bounds
             else if \<not> scratch_alloc e then Inl Null_deref
             else Inr (0, emit (Polygon
                                  (map (\<lambda>p. add_offset (coord_x p) x_offset) (take (unat n) ps))
                                  (map (\<lambda>p. add_offset (coord_y p) y_offset) (take (unat n) ps))
                                  n colour) s)))"

definition drawTriangle ::
  "coord list option \<Rightarrow> cint \<Rightarrow> cint \<Rightarrow> uint \<Rightarrow> gfx_state \<Rightarrow> (int \<times> gfx_state) result" where
  "drawTriangle points x_offset y_offset colour s =
     (case points of
        None \<Rightarrow> Inl Null_deref
      | Some ps \<Rightarrow>
          (case ps of
             p0 # p1 # p2 # rest \<Rightarrow>
               Inr (0, emit (Triangle
                               (add_offset (coord_x p0) x_offset) (add_offset (coord_y p0) y_offset)
                               (add_offset (coord_x p1) x_offset) (add_offset (coord_y p1) y_offset)
                               (add_offset (coord_x p2) x_offset) (add_offset (coord_y p2) y_offset)
                               colour) s)
           | _ \<Rightarrow> Inl Out_of_bounds))"

text \<open>\<open>_drawText\<close> renders with the font and gives the job's font reference back.\<close>

definition drawText ::
  "string option \<Rightarrow> sshort \<Rightarrow> sshort \<Rightarrow> uint \<Rightarrow> ttf option \<Rightarrow> gfx_state
     \<Rightarrow> (int \<times> gfx_state) result" where
  "drawText str x y colour fnt s =
     (case gfxFontPutFont fnt (emit (Text str x y colour fnt) s) of
        Inl e \<Rightarrow> Inl e
      | Inr s1 \<Rightarrow> Inr (0, s1))"

text \<open>The helpers that report failure: \<open>_drawScaledImage\<close> and \<open>_drawArrow\<close> return
  -1 when SDL fails; the two loaded-image helpers return what \<open>SDL_RenderCopy\<close>
  returns.\<close>

definition drawScaledImage ::
  "env \<Rightarrow> string option \<Rightarrow> sshort \<Rightarrow> sshort \<Rightarrow> cfloat \<Rightarrow> gfx_state
     \<Rightarrow> (int \<times> gfx_state) result" where
  "drawScaledImage e filename x y scale s =
     Inr (if sdl_rc e (Scaled_image filename x y scale) = 0 then 0 else -1,
          emit (Scaled_image filename x y scale) s)"

definition drawImage ::
  "env \<Rightarrow> string option \<Rightarrow> sshort \<Rightarrow> sshort \<Rightarrow> gfx_state \<Rightarrow> (int \<times> gfx_state) result" where
  "drawImage e filename x y s =
     Inr (if sdl_rc e (Image filename x y) = 0 then 0 else -1, emit (Image filename x y) s)"

definition drawArrow ::
  "env \<Rightarrow> sshort \<Rightarrow> sshort \<Rightarrow> sshort \<Rightarrow> sshort \<Rightarrow> sshort \<Rightarrow> uchar \<Rightarrow> uint \<Rightarrow> gfx_state
     \<Rightarrow> (int \<times> gfx_state) result" where
  "drawArrow e x1 y1 x2 y2 head_length thickness colour s =
     Inr (if sdl_rc e (Arrow x1 y1 x2 y2 head_length thickness colour) = 0 then 0 else -1,
          emit (Arrow x1 y1 x2 y2 head_length thickness colour) s)"

definition xDrawLoadedImage ::
  "env \<Rightarrow> addr option \<Rightarrow> sshort \<Rightarrow> sshort \<Rightarrow> gfx_state \<Rightarrow> (int \<times> gfx_state) result" where
  "xDrawLoadedImage e img x y s =
     (case image_at img s of
        Inl f \<Rightarrow> Inl f
      | Inr i \<Rightarrow>
          Inr (sdl_rc e (Loaded_image (iaddr i) x y), emit (Loaded_image (iaddr i) x y) s))"

definition xDrawLoadedImageCropped ::
  "env \<Rightarrow> addr option \<Rightarrow> sshort \<Rightarrow> sshort \<Rightarrow> sshort \<Rightarrow> sshort \<Rightarrow> sshort \<Rightarrow> sshort \<Rightarrow> gfx_state
     \<Rightarrow> (int \<times> gfx_state) result" where
  "xDrawLoadedImageCropped e img x y c_x c_y c_w c_h s =
     (case image_at img s of
        Inl f \<Rightarrow> Inl f
      | Inr i \<Rightarrow>
          Inr (sdl_rc e (Loaded_image_crop (iaddr i) x y c_x c_y c_w c_h),
               emit (Loaded_image_crop (iaddr i) x y c_x c_y c_w c_h) s))"

text \<open>Running \<open>vPutLoadedImage\<close> after a helper, keeping the helper's return value.\<close>

definition then_put_image ::
  "addr option \<Rightarrow> (int \<times> gfx_state) result \<Rightarrow> (int \<times> gfx_state) result" where
  "then_put_image img r =
     (case r of
        Inl f \<Rightarrow> Inl f
      | Inr (ret, s1) \<Rightarrow>
          (case vPutLoadedImage img s1 of
             Inl f \<Rightarrow> Inl f
           | Inr s2 \<Rightarrow> Inr (ret, s2)))"

text \<open>
  \<open>vHandleDrawJob\<close>: read the global offset, then switch on the job type. The result
  is the return value and the state.
\<close>

definition vHandleDrawJob :: "env \<Rightarrow> draw_job \<Rightarrow> gfx_state \<Rightarrow> (int \<times> gfx_state) result" where
  "vHandleDrawJob e job s =
     (if \<not> offset_lock_ok e then Inr (-1, s)
      else
        (let x_offset = global_offset_x s; y_offset = global_offset_y s in
         case job of
           DRAW_NONE \<Rightarrow> Inr (-1, s)
         | DRAW_CLEAR d \<Rightarrow> clearDisplay (clear_colour d) s
         | DRAW_ARC d \<Rightarrow>
             drawArc (add_offset (arc_x d) x_offset) (add_offset (arc_y d) y_offset)
               (arc_radius d) (arc_start d) (arc_end d) (arc_colour d) s
         | DRAW_ELLIPSE d \<Rightarrow>
             drawEllipse (add_offset (ellipse_x d) x_offset) (ellipse_y d)
               (ellipse_rx d) (ellipse_ry d) (ellipse_colour d) s
         | DRAW_TEXT d \<Rightarrow>
             drawText (text_str d) (add_offset (text_x d) x_offset)
               (add_offset (text_y d) y_offset) (text_colour d) (text_font d) s
         | DRAW_RECT d \<Rightarrow>
             drawRectangle (add_offset (rect_x d) x_offset) (add_offset (rect_y d) y_offset)
               (rect_w d) (rect_h d) (rect_colour d) s
         | DRAW_FILLED_RECT d \<Rightarrow>
             drawFilledRectangle (add_offset (rect_x d) x_offset)
               (add_offset (rect_y d) y_offset) (rect_w d) (rect_h d) (rect_colour d) s
         | DRAW_CIRCLE d \<Rightarrow>
             drawCircle (add_offset (circle_x d) x_offset) (add_offset (circle_y d) y_offset)
               (circle_radius d) (circle_colour d) s
         | DRAW_LINE d \<Rightarrow>
             drawLine (add_offset (line_x1 d) x_offset) (add_offset (line_y1 d) y_offset)
               (add_offset (line_x2 d) x_offset) (add_offset (line_y2 d) y_offset)
               (line_thickness d) (line_colour d) s
         | DRAW_POLY d \<Rightarrow>
             drawPoly e (poly_points d) (poly_n d) x_offset y_offset (ucast (poly_colour d)) s
         | DRAW_TRIANGLE d \<Rightarrow>
             drawTriangle (triangle_points d) x_offset y_offset (triangle_colour d) s
         | DRAW_IMAGE d \<Rightarrow>
             drawImage e (image_filename d) (add_offset (image_x d) x_offset)
               (add_offset (image_y d) y_offset) s
         | DRAW_LOADED_IMAGE d \<Rightarrow>
             then_put_image (loaded_image_img d)
               (xDrawLoadedImage e (loaded_image_img d)
                  (add_offset (loaded_image_x d) x_offset)
                  (add_offset (loaded_image_y d) y_offset) s)
         | DRAW_LOADED_IMAGE_CROP d \<Rightarrow>
             then_put_image (crop_image d)
               (xDrawLoadedImageCropped e (crop_image d)
                  (short_of_int (crop_x d + x_offset)) (short_of_int (crop_y d + y_offset))
                  (short_of_int (crop_c_x d)) (short_of_int (crop_c_y d))
                  (short_of_int (crop_c_w d)) (short_of_int (crop_c_h d)) s)
         | DRAW_SCALED_IMAGE d \<Rightarrow>
             drawScaledImage e (image_filename (scaled_image d))
               (add_offset (image_x (scaled_image d)) x_offset)
               (add_offset (image_y (scaled_image d)) y_offset) (scaled_scale d) s
         | DRAW_ARROW d \<Rightarrow>
             drawArrow e (add_offset (arrow_x1 d) x_offset) (add_offset (arrow_y1 d) y_offset)
               (add_offset (arrow_x2 d) x_offset) (add_offset (arrow_y2 d) y_offset)
               (arrow_head_length d) (arrow_thickness d) (arrow_colour d) s))"

section \<open>The screen update\<close>

text \<open>Dispatching a job leaves the queue and the global offset alone; the loop
  of \<open>gfxDrawUpdateScreen\<close> terminates for that reason.\<close>

lemma emit_simps [simp]:
  "job_list (emit c s) = job_list s"
  "global_offset_x (emit c s) = global_offset_x s"
  "global_offset_y (emit c s) = global_offset_y s"
  "draw_trace (emit c s) = draw_trace s @ [c]"
  "loaded_images_list (emit c s) = loaded_images_list s"
  "font_list (emit c s) = font_list s"
  "freed (emit c s) = freed s"
  "presented (emit c s) = presented s"
  by (simp_all add: emit_def)

lemma put_font_frame:
  assumes "put_font m s = Inr s'"
  shows "job_list s' = job_list s \<and> global_offset_x s' = global_offset_x s
       \<and> global_offset_y s' = global_offset_y s \<and> draw_trace s' = draw_trace s
       \<and> presented s' = presented s \<and> loaded_images_list s' = loaded_images_list s"
  using assms
  by (auto simp: put_font_def gfxFontDeleteFont_def split: sum.splits option.splits prod.splits)

lemma gfxFontPutFont_frame:
  assumes "gfxFontPutFont f s = Inr s'"
  shows "job_list s' = job_list s \<and> global_offset_x s' = global_offset_x s
       \<and> global_offset_y s' = global_offset_y s \<and> draw_trace s' = draw_trace s
       \<and> presented s' = presented s \<and> loaded_images_list s' = loaded_images_list s"
  using assms put_font_frame[of _ s s']
  by (auto simp: gfxFontPutFont_def split: if_splits)

lemma vPutLoadedImage_frame:
  assumes "vPutLoadedImage h s = Inr s'"
  shows "job_list s' = job_list s \<and> global_offset_x s' = global_offset_x s
       \<and> global_offset_y s' = global_offset_y s \<and> draw_trace s' = draw_trace s
       \<and> presented s' = presented s"
  using assms
  by (auto simp: vPutLoadedImage_def freeLoadedImage_def update_image_def Let_def
           split: sum.splits option.splits prod.splits if_splits)

lemma image_at_addr: "image_at h s = Inr i \<Longrightarrow> h = Some (iaddr i)"
  by (auto simp: image_at_def split: option.splits dest: find_Some_iff[THEN iffD1])


lemma vHandleDrawJob_frame:
  assumes "vHandleDrawJob e j s = Inr (r, s')"
  shows "job_list s' = job_list s \<and> global_offset_x s' = global_offset_x s
       \<and> global_offset_y s' = global_offset_y s \<and> presented s' = presented s"
proof (cases j)
  case (DRAW_TEXT d)
  with assms show ?thesis
    by (auto simp: vHandleDrawJob_def drawText_def Let_def
             split: if_splits sum.splits dest!: gfxFontPutFont_frame)
next
  case (DRAW_LOADED_IMAGE d)
  with assms show ?thesis
    by (auto simp: vHandleDrawJob_def then_put_image_def xDrawLoadedImage_def Let_def
             split: if_splits sum.splits prod.splits dest!: vPutLoadedImage_frame)
next
  case (DRAW_LOADED_IMAGE_CROP d)
  with assms show ?thesis
    by (auto simp: vHandleDrawJob_def then_put_image_def xDrawLoadedImageCropped_def Let_def
             split: if_splits sum.splits prod.splits dest!: vPutLoadedImage_frame)
next
  case (DRAW_POLY d)
  with assms show ?thesis
    by (auto simp: vHandleDrawJob_def drawPoly_def Let_def split: if_splits option.splits)
next
  case (DRAW_TRIANGLE d)
  with assms show ?thesis
    by (auto simp: vHandleDrawJob_def drawTriangle_def Let_def
             split: if_splits option.splits list.splits)
qed (use assms in \<open>auto simp: vHandleDrawJob_def Let_def clearDisplay_def drawArc_def
       drawEllipse_def drawRectangle_def drawFilledRectangle_def drawCircle_def drawLine_def
       drawImage_def drawScaledImage_def drawArrow_def split: if_splits\<close>)

text \<open>
  The loop \<open>while ((tmp_job = popDrawJob()) != NULL)\<close> of \<open>gfxDrawUpdateScreen\<close>:
  a node without payload ends it with -1, and so does a job whose dispatch returns -1;
  when the queue is empty the frame is presented and the result is 0.
\<close>

function drain_jobs :: "env \<Rightarrow> gfx_state \<Rightarrow> (int \<times> gfx_state) result" where
  "drain_jobs e s =
     (case popDrawJob s of
        (None, s1) \<Rightarrow> Inr (0, s1\<lparr>presented := Suc (presented s1)\<rparr>)
      | (Some tmp_job, s1) \<Rightarrow>
          if tmp_job = DRAW_NONE then Inr (-1, s1)
          else
            (case vHandleDrawJob e tmp_job s1 of
               Inl f \<Rightarrow> Inl f
             | Inr (r, s2) \<Rightarrow> if r = -1 then Inr (-1, s2) else drain_jobs e s2))"
  by pat_completeness auto
termination
proof (relation "measure (\<lambda>(e, s). length (job_list s))")
  show "wf (measure (\<lambda>(e, s). length (job_list s)))" by simp
next
  fix e s x1 x2 tmp_job x rs r s2
  assume "(x1, x2) = popDrawJob s" "x1 = Some tmp_job"
    and "vHandleDrawJob e tmp_job x2 = Inr rs" "(r, s2) = rs"
  then show "((e, s2), (e, s)) \<in> measure (\<lambda>(e, s). length (job_list s))"
    using vHandleDrawJob_frame [of e tmp_job x2 r s2]
    by (auto simp: popDrawJob_def split: list.splits)
qed

declare drain_jobs.simps [simp del]

text \<open>\<open>gfxDrawUpdateScreen\<close>: only the thread that holds the GL context may update;
  the frame limiter may skip the update; an empty queue is left alone.\<close>

definition gfxDrawUpdateScreen :: "env \<Rightarrow> gfx_state \<Rightarrow> (int \<times> gfx_state) result" where
  "gfxDrawUpdateScreen e s =
     (if \<not> is_gl_thread e then Inr (-1, s)
      else if fps_hold e then Inr (0, s)
      else if waitingDrawJobs s = 0 then Inr (0, s)
      else drain_jobs e s)"


section \<open>The global offset\<close>

text \<open>The setters take the status of \<open>pthread_mutex_lock\<close> and return it.\<close>

definition gfxDrawSetGlobalXOffset :: "int \<Rightarrow> cint \<Rightarrow> gfx_state \<Rightarrow> int \<times> gfx_state" where
  "gfxDrawSetGlobalXOffset lock_rc offset s =
     (if lock_rc = 0 then (lock_rc, s\<lparr>global_offset_x := offset\<rparr>) else (lock_rc, s))"

definition gfxDrawSetGlobalYOffset :: "int \<Rightarrow> cint \<Rightarrow> gfx_state \<Rightarrow> int \<times> gfx_state" where
  "gfxDrawSetGlobalYOffset lock_rc offset s =
     (if lock_rc = 0 then (lock_rc, s\<lparr>global_offset_y := offset\<rparr>) else (lock_rc, s))"

section \<open>The draw requests\<close>

text \<open>
  Every request starts with \<open>INIT_JOB\<close>, which links the node before anything of the
  payload is built, and then writes the payload through the node pointer.
\<close>

definition gfxDrawClear :: "allocs \<Rightarrow> uint \<Rightarrow> gfx_state \<Rightarrow> (int \<times> gfx_state) result" where
  "gfxDrawClear al colour s =
     (case INIT_JOB al (DRAW_CLEAR \<lparr>clear_colour = 0\<rparr>) s of
        Inl f \<Rightarrow> Inl f
      | Inr None \<Rightarrow> Inr (-1, s)
      | Inr (Some s1) \<Rightarrow> Inr (0, set_job (DRAW_CLEAR \<lparr>clear_colour = colour\<rparr>) s1))"

definition gfxDrawEllipse ::
  "allocs \<Rightarrow> sshort \<Rightarrow> sshort \<Rightarrow> sshort \<Rightarrow> sshort \<Rightarrow> uint \<Rightarrow> gfx_state
     \<Rightarrow> (int \<times> gfx_state) result" where
  "gfxDrawEllipse al x y rx ry colour s =
     (case INIT_JOB al (DRAW_ELLIPSE \<lparr>ellipse_x = 0, ellipse_y = 0, ellipse_rx = 0,
                          ellipse_ry = 0, ellipse_colour = 0\<rparr>) s of
        Inl f \<Rightarrow> Inl f
      | Inr None \<Rightarrow> Inr (-1, s)
      | Inr (Some s1) \<Rightarrow>
          Inr (0, set_job (DRAW_ELLIPSE \<lparr>ellipse_x = x, ellipse_y = y, ellipse_rx = rx,
                             ellipse_ry = ry, ellipse_colour = colour\<rparr>) s1))"

definition gfxDrawArc ::
  "allocs \<Rightarrow> sshort \<Rightarrow> sshort \<Rightarrow> sshort \<Rightarrow> sshort \<Rightarrow> sshort \<Rightarrow> uint \<Rightarrow> gfx_state
     \<Rightarrow> (int \<times> gfx_state) result" where
  "gfxDrawArc al x y radius start en colour s =
     (case INIT_JOB al (DRAW_ARC \<lparr>arc_x = 0, arc_y = 0, arc_radius = 0, arc_start = 0,
                          arc_end = 0, arc_colour = 0\<rparr>) s of
        Inl f \<Rightarrow> Inl f
      | Inr None \<Rightarrow> Inr (-1, s)
      | Inr (Some s1) \<Rightarrow>
          Inr (0, set_job (DRAW_ARC \<lparr>arc_x = x, arc_y = y, arc_radius = radius,
                             arc_start = start, arc_end = en, arc_colour = colour\<rparr>) s1))"

definition gfxDrawFilledBox ::
  "allocs \<Rightarrow> sshort \<Rightarrow> sshort \<Rightarrow> sshort \<Rightarrow> sshort \<Rightarrow> uint \<Rightarrow> gfx_state
     \<Rightarrow> (int \<times> gfx_state) result" where
  "gfxDrawFilledBox al x y w h colour s =
     (case INIT_JOB al (DRAW_FILLED_RECT \<lparr>rect_x = 0, rect_y = 0, rect_w = 0, rect_h = 0,
                          rect_colour = 0\<rparr>) s of
        Inl f \<Rightarrow> Inl f
      | Inr None \<Rightarrow> Inr (-1, s)
      | Inr (Some s1) \<Rightarrow>
          Inr (0, set_job (DRAW_FILLED_RECT \<lparr>rect_x = x, rect_y = y, rect_w = w, rect_h = h,
                             rect_colour = colour\<rparr>) s1))"

definition gfxDrawBox ::
  "allocs \<Rightarrow> sshort \<Rightarrow> sshort \<Rightarrow> sshort \<Rightarrow> sshort \<Rightarrow> uint \<Rightarrow> gfx_state
     \<Rightarrow> (int \<times> gfx_state) result" where
  "gfxDrawBox al x y w h colour s =
     (case INIT_JOB al (DRAW_RECT \<lparr>rect_x = 0, rect_y = 0, rect_w = 0, rect_h = 0,
                          rect_colour = 0\<rparr>) s of
        Inl f \<Rightarrow> Inl f
      | Inr None \<Rightarrow> Inr (-1, s)
      | Inr (Some s1) \<Rightarrow>
          Inr (0, set_job (DRAW_RECT \<lparr>rect_x = x, rect_y = y, rect_w = w, rect_h = h,
                             rect_colour = colour\<rparr>) s1))"

definition gfxDrawCircle ::
  "allocs \<Rightarrow> sshort \<Rightarrow> sshort \<Rightarrow> sshort \<Rightarrow> uint \<Rightarrow> gfx_state \<Rightarrow> (int \<times> gfx_state) result" where
  "gfxDrawCircle al x y radius colour s =
     (case INIT_JOB al (DRAW_CIRCLE \<lparr>circle_x = 0, circle_y = 0, circle_radius = 0,
                          circle_colour = 0\<rparr>) s of
        Inl f \<Rightarrow> Inl f
      | Inr None \<Rightarrow> Inr (-1, s)
      | Inr (Some s1) \<Rightarrow>
          Inr (0, set_job (DRAW_CIRCLE \<lparr>circle_x = x, circle_y = y, circle_radius = radius,
                             circle_colour = colour\<rparr>) s1))"

definition gfxDrawLine ::
  "allocs \<Rightarrow> sshort \<Rightarrow> sshort \<Rightarrow> sshort \<Rightarrow> sshort \<Rightarrow> uchar \<Rightarrow> uint \<Rightarrow> gfx_state
     \<Rightarrow> (int \<times> gfx_state) result" where
  "gfxDrawLine al x1 y1 x2 y2 thickness colour s =
     (case INIT_JOB al (DRAW_LINE \<lparr>line_x1 = 0, line_y1 = 0, line_x2 = 0, line_y2 = 0,
                          line_thickness = 0, line_colour = 0\<rparr>) s of
        Inl f \<Rightarrow> Inl f
      | Inr None \<Rightarrow> Inr (-1, s)
      | Inr (Some s1) \<Rightarrow>
          Inr (0, set_job (DRAW_LINE \<lparr>line_x1 = x1, line_y1 = y1, line_x2 = x2, line_y2 = y2,
                             line_thickness = thickness, line_colour = colour\<rparr>) s1))"

definition gfxDrawArrow ::
  "allocs \<Rightarrow> sshort \<Rightarrow> sshort \<Rightarrow> sshort \<Rightarrow> sshort \<Rightarrow> sshort \<Rightarrow> uchar \<Rightarrow> uint \<Rightarrow> gfx_state
     \<Rightarrow> (int \<times> gfx_state) result" where
  "gfxDrawArrow al x1 y1 x2 y2 head_length thickness colour s =
     (case INIT_JOB al (DRAW_ARROW \<lparr>arrow_x1 = 0, arrow_y1 = 0, arrow_x2 = 0, arrow_y2 = 0,
                          arrow_head_length = 0, arrow_thickness = 0, arrow_colour = 0\<rparr>) s of
        Inl f \<Rightarrow> Inl f
      | Inr None \<Rightarrow> Inr (-1, s)
      | Inr (Some s1) \<Rightarrow>
          Inr (0, set_job (DRAW_ARROW \<lparr>arrow_x1 = x1, arrow_y1 = y1, arrow_x2 = x2,
                             arrow_y2 = y2, arrow_head_length = head_length,
                             arrow_thickness = thickness, arrow_colour = colour\<rparr>) s1))"

text \<open>
  \<open>gfxDrawPoly\<close> and \<open>gfxDrawTriangle\<close> copy the caller's points. When the copy
  cannot be allocated they return -1; the node that \<open>INIT_JOB\<close> linked stays where it
  is. \<open>calloc(n, ...)\<close> with a negative \<open>n\<close> asks for more than there is.
\<close>

definition gfxDrawPoly ::
  "allocs \<Rightarrow> coord list option \<Rightarrow> cint \<Rightarrow> uint \<Rightarrow> gfx_state \<Rightarrow> (int \<times> gfx_state) result" where
  "gfxDrawPoly al points n colour s =
     (case INIT_JOB al (DRAW_POLY zero_poly) s of
        Inl f \<Rightarrow> Inl f
      | Inr None \<Rightarrow> Inr (-1, s)
      | Inr (Some s1) \<Rightarrow>
          if sint n < 0 \<or> \<not> payload_alloc al then Inr (-1, s1)
          else if n = 0 then
            Inr (0, set_job (DRAW_POLY \<lparr>poly_points = Some [], poly_n = n,
                               poly_colour = colour\<rparr>) s1)
          else
            (case points of
               None \<Rightarrow> Inl Null_deref
             | Some ps \<Rightarrow>
                 if length ps < unat n then Inl Out_of_bounds
                 else Inr (0, set_job (DRAW_POLY \<lparr>poly_points = Some (take (unat n) ps),
                                         poly_n = n, poly_colour = colour\<rparr>) s1)))"

definition gfxDrawTriangle ::
  "allocs \<Rightarrow> coord list option \<Rightarrow> uint \<Rightarrow> gfx_state \<Rightarrow> (int \<times> gfx_state) result" where
  "gfxDrawTriangle al points colour s =
     (case INIT_JOB al (DRAW_TRIANGLE zero_triangle) s of
        Inl f \<Rightarrow> Inl f
      | Inr None \<Rightarrow> Inr (-1, s)
      | Inr (Some s1) \<Rightarrow>
          if \<not> payload_alloc al then Inr (-1, s1)
          else
            (case points of
               None \<Rightarrow> Inl Null_deref
             | Some ps \<Rightarrow>
                 if length ps < 3 then Inl Out_of_bounds
                 else Inr (0, set_job (DRAW_TRIANGLE \<lparr>triangle_points = Some (take 3 ps),
                                         triangle_colour = colour\<rparr>) s1)))"

text \<open>
  \<open>gfxDrawText\<close>: the empty string is refused before anything is allocated. When the
  copy of the string cannot be allocated the function returns -1 after \<open>INIT_JOB\<close>
  has linked the node. Otherwise the job takes a reference to the current font.
\<close>

definition gfxDrawText ::
  "allocs \<Rightarrow> string option \<Rightarrow> sshort \<Rightarrow> sshort \<Rightarrow> uint \<Rightarrow> gfx_state
     \<Rightarrow> (int \<times> gfx_state) result" where
  "gfxDrawText al str x y colour s =
     (case str of
        None \<Rightarrow> Inl Null_deref
      | Some st \<Rightarrow>
          if st = [] then Inr (-1, s)
          else
            (case INIT_JOB al (DRAW_TEXT zero_text) s of
               Inl f \<Rightarrow> Inl f
             | Inr None \<Rightarrow> Inr (-1, s)
             | Inr (Some s1) \<Rightarrow>
                 if \<not> payload_alloc al then Inr (-1, s1)
                 else
                   (case gfxFontGetCurFont s1 of
                      Inl f \<Rightarrow> Inl f
                    | Inr (fnt, s2) \<Rightarrow>
                        Inr (0, set_job (DRAW_TEXT \<lparr>text_str = Some st, text_x = x,
                                           text_y = y, text_colour = colour,
                                           text_font = fnt\<rparr>) s2))))"

text \<open>
  What measuring a string needs from SDL: rendering to a surface, making a texture of
  it, and querying the texture's size. \<open>None\<close> is a failure of the call.
\<close>

record text_env =
  TTF_RenderText_Solid :: "ttf option \<Rightarrow> string \<Rightarrow> nat option"
  SDL_CreateTextureFromSurface :: "nat \<Rightarrow> nat option"
  SDL_QueryTexture :: "nat \<Rightarrow> (cint \<times> cint) option"

text \<open>\<open>_getTextSize\<close>: \<open>None\<close> is its \<open>return -1\<close>, \<open>Some (width, height)\<close> its
  \<open>return 0\<close> with the two results. The current font is acquired and given back.\<close>

definition getTextSize ::
  "text_env \<Rightarrow> string \<Rightarrow> gfx_state \<Rightarrow> ((cint \<times> cint) option \<times> gfx_state) result" where
  "getTextSize te st s =
     (case gfxFontGetCurFont s of
        Inl f \<Rightarrow> Inl f
      | Inr (fnt, s1) \<Rightarrow>
          (case gfxFontPutFont fnt s1 of
             Inl f \<Rightarrow> Inl f
           | Inr s2 \<Rightarrow>
               (case TTF_RenderText_Solid te fnt st of
                  None \<Rightarrow> Inr (None, s2)
                | Some surface \<Rightarrow>
                    (case SDL_CreateTextureFromSurface te surface of
                       None \<Rightarrow> Inr (None, s2)
                     | Some texture \<Rightarrow> Inr (SDL_QueryTexture te texture, s2)))))"

definition gfxGetTextSize ::
  "text_env \<Rightarrow> string option \<Rightarrow> gfx_state \<Rightarrow> ((cint \<times> cint) option \<times> gfx_state) result" where
  "gfxGetTextSize te str s =
     (case str of
        None \<Rightarrow> Inr (None, s)
      | Some st \<Rightarrow> getTextSize te st s)"

definition gfxDrawCenteredText ::
  "text_env \<Rightarrow> allocs \<Rightarrow> string option \<Rightarrow> sshort \<Rightarrow> sshort \<Rightarrow> uint \<Rightarrow> gfx_state
     \<Rightarrow> (int \<times> gfx_state) result" where
  "gfxDrawCenteredText te al str x y colour s =
     (case gfxGetTextSize te str s of
        Inl f \<Rightarrow> Inl f
      | Inr (None, s1) \<Rightarrow> Inr (-1, s1)
      | Inr (Some (width, height), s1) \<Rightarrow>
          gfxDrawText al str
            (short_of_int (int_of_short x - int_div width 2))
            (short_of_int (int_of_short y - int_div height 2)) colour s1)"

text \<open>\<open>gfxDrawLoadedImage\<close>: the job takes a reference to the image.\<close>

definition gfxDrawLoadedImage ::
  "allocs \<Rightarrow> addr option \<Rightarrow> sshort \<Rightarrow> sshort \<Rightarrow> gfx_state \<Rightarrow> (int \<times> gfx_state) result" where
  "gfxDrawLoadedImage al img x y s =
     (if img = None then Inr (-1, s)
      else
        (case INIT_JOB al (DRAW_LOADED_IMAGE \<lparr>loaded_image_img = None, loaded_image_x = 0,
                             loaded_image_y = 0\<rparr>) s of
           Inl f \<Rightarrow> Inl f
         | Inr None \<Rightarrow> Inr (-1, s)
         | Inr (Some s1) \<Rightarrow>
             (case image_at img s1 of
                Inl f \<Rightarrow> Inl f
              | Inr i \<Rightarrow>
                  Inr (0, set_job (DRAW_LOADED_IMAGE \<lparr>loaded_image_img = img,
                                     loaded_image_x = x, loaded_image_y = y\<rparr>)
                            (update_image (iaddr i)
                               (\<lambda>i. i\<lparr>img_ref_count := img_ref_count i + 1\<rparr>) s1)))))"

text \<open>\<open>gfxDrawImage\<close> and \<open>gfxDrawScaledImage\<close>: \<open>abs_path\<close> is what
  \<open>realpath\<close> gave; the buffer for the copy is not checked before \<open>strcpy\<close>.\<close>

definition gfxDrawImage ::
  "allocs \<Rightarrow> string option \<Rightarrow> sshort \<Rightarrow> sshort \<Rightarrow> gfx_state \<Rightarrow> (int \<times> gfx_state) result" where
  "gfxDrawImage al abs_path x y s =
     (case INIT_JOB al (DRAW_IMAGE zero_image) s of
        Inl f \<Rightarrow> Inl f
      | Inr None \<Rightarrow> Inr (-1, s)
      | Inr (Some s1) \<Rightarrow>
          (case abs_path of
             None \<Rightarrow> Inr (-1, s1)
           | Some p \<Rightarrow>
               if \<not> payload_alloc al then Inl Null_deref
               else Inr (0, set_job (DRAW_IMAGE \<lparr>image_filename = Some p, image_x = x,
                                       image_y = y\<rparr>) s1)))"

definition gfxDrawScaledImage ::
  "allocs \<Rightarrow> string option \<Rightarrow> sshort \<Rightarrow> sshort \<Rightarrow> cfloat \<Rightarrow> gfx_state
     \<Rightarrow> (int \<times> gfx_state) result" where
  "gfxDrawScaledImage al abs_path x y scale s =
     (case INIT_JOB al (DRAW_SCALED_IMAGE zero_scaled_image) s of
        Inl f \<Rightarrow> Inl f
      | Inr None \<Rightarrow> Inr (-1, s)
      | Inr (Some s1) \<Rightarrow>
          (case abs_path of
             None \<Rightarrow> Inr (-1, s1)
           | Some p \<Rightarrow>
               if \<not> payload_alloc al then Inl Null_deref
               else Inr (0, set_job (DRAW_SCALED_IMAGE
                                       \<lparr>scaled_image = \<lparr>image_filename = Some p, image_x = x,
                                                         image_y = y\<rparr>,
                                        scaled_scale = scale\<rparr>) s1)))"

section \<open>Spritesheets\<close>

record spritesheet =
  ss_image :: "addr option"
  ss_x :: uint
  ss_y :: uint
  ss_width :: uint
  ss_height :: uint
  sprite_width :: uint
  sprite_height :: uint
  sprite_cols :: uint
  sprite_rows :: uint
  padding_x :: uint
  padding_y :: uint

text \<open>\<open>gfxDrawInitSpritesheet\<close>: \<open>Inr None\<close> is the \<open>NULL\<close> it returns without
  an image or without memory; the box starts as the whole image.\<close>

definition gfxDrawInitSpritesheet ::
  "bool \<Rightarrow> addr option \<Rightarrow> gfx_state \<Rightarrow> spritesheet option result" where
  "gfxDrawInitSpritesheet alloc_ok img s =
     (if img = None then Inr None
      else if \<not> alloc_ok then Inr None
      else
        (case image_at img s of
           Inl f \<Rightarrow> Inl f
         | Inr i \<Rightarrow>
             Inr (Some \<lparr>ss_image = img, ss_x = 0, ss_y = 0, ss_width = img_w i,
                         ss_height = img_h i, sprite_width = 0, sprite_height = 0,
                         sprite_cols = 0, sprite_rows = 0, padding_x = 0, padding_y = 0\<rparr>)))"

definition gfxDrawSpritesheetSetBoundingBox ::
  "spritesheet \<Rightarrow> uint \<Rightarrow> uint \<Rightarrow> uint \<Rightarrow> uint \<Rightarrow> spritesheet" where
  "gfxDrawSpritesheetSetBoundingBox sh bounding_x bounding_y bounding_w bounding_h =
     sh\<lparr>ss_x := bounding_x, ss_y := bounding_y, ss_width := bounding_w,
        ss_height := bounding_h\<rparr>"

definition gfxDrawSpritesheetSetPadding :: "spritesheet \<Rightarrow> uint \<Rightarrow> uint \<Rightarrow> spritesheet" where
  "gfxDrawSpritesheetSetPadding sh px py = sh\<lparr>padding_x := px, padding_y := py\<rparr>"

text \<open>\<open>gfxDrawSpritesheetSetDivisions\<close>, in \<open>unsigned\<close> arithmetic; dividing by a
  zero column or row count traps.\<close>

definition gfxDrawSpritesheetSetDivisions ::
  "spritesheet \<Rightarrow> uint \<Rightarrow> uint \<Rightarrow> spritesheet result" where
  "gfxDrawSpritesheetSetDivisions sh cols rows =
     (let total_x_padding_pixels = padding_x sh * (cols - 1) * 2;
          total_y_padding_pixels = padding_y sh * (rows - 1) * 2
      in if cols = 0 \<or> rows = 0 then Inl Div_by_zero
         else Inr (sh\<lparr>sprite_cols := cols, sprite_rows := rows,
                      sprite_width := (ss_width sh - total_x_padding_pixels) div cols,
                      sprite_height := (ss_height sh - total_y_padding_pixels) div rows\<rparr>))"

text \<open>
  \<open>gfxDrawSprite\<close>: \<open>column\<close> and \<open>row\<close> are of type \<open>char\<close>; each is compared
  with zero as a signed value and with the \<open>unsigned\<close> count after conversion. The
  crop origin is computed in \<open>unsigned\<close> arithmetic and stored in \<open>int\<close> fields.
\<close>

definition gfxDrawSprite ::
  "allocs \<Rightarrow> spritesheet option \<Rightarrow> cchar \<Rightarrow> cchar \<Rightarrow> sshort \<Rightarrow> sshort \<Rightarrow> gfx_state
     \<Rightarrow> (int \<times> gfx_state) result" where
  "gfxDrawSprite al spritesheet column row x y s =
     (case spritesheet of
        None \<Rightarrow> Inr (-1, s)
      | Some sh \<Rightarrow>
          if sint column < 0 \<or> scast column > sprite_cols sh then Inr (-1, s)
          else if sint row < 0 \<or> scast row > sprite_rows sh then Inr (-1, s)
          else
            (case INIT_JOB al (DRAW_LOADED_IMAGE_CROP zero_crop) s of
               Inl f \<Rightarrow> Inl f
             | Inr None \<Rightarrow> Inr (-1, s)
             | Inr (Some s1) \<Rightarrow>
                 (case image_at (ss_image sh) s1 of
                    Inl f \<Rightarrow> Inl f
                  | Inr i \<Rightarrow>
                      Inr (0, set_job (DRAW_LOADED_IMAGE_CROP
                                \<lparr>crop_image = ss_image sh,
                                 crop_x = int_of_short x,
                                 crop_y = int_of_short y,
                                 crop_c_x = scast column * (sprite_width sh + padding_x sh * 2)
                                            + padding_x sh,
                                 crop_c_y = scast row * (sprite_height sh + padding_y sh * 2)
                                            + padding_y sh,
                                 crop_c_w = sprite_width sh,
                                 crop_c_h = sprite_height sh\<rparr>)
                                (update_image (iaddr i)
                                   (\<lambda>i. i\<lparr>img_ref_count := img_ref_count i + 1\<rparr>) s1)))))"

section \<open>Animations\<close>

datatype sprite_sequence_direction =
    SPRITE_SEQUENCE_HORIZONTAL_POS
  | SPRITE_SEQUENCE_HORIZONTAL_NEG
  | SPRITE_SEQUENCE_VERTICAL_POS
  | SPRITE_SEQUENCE_VERTICAL_NEG

record spritesheet_sequence =
  seq_name :: string
  start_row :: uint
  start_col :: uint
  direction :: sprite_sequence_direction
  frames :: uint

record animated_image =
  anim_spritesheet :: spritesheet
  sequences :: "spritesheet_sequence list"

text \<open>An instance points to its animation and to one of the animation's sequences;
  neither changes once the instance exists, so the instance carries them.\<close>

record animated_sequence_instance =
  frame_period_ms :: uint
  current_frame :: cint
  prev_frame_timestamp :: uint
  cur_frame_timestamp :: uint
  inst_image :: animated_image
  inst_sequence :: spritesheet_sequence

definition gfxDrawAnimationCreate :: "bool \<Rightarrow> spritesheet option \<Rightarrow> animated_image option" where
  "gfxDrawAnimationCreate alloc_ok spritesheet =
     (case spritesheet of
        None \<Rightarrow> None
      | Some sh \<Rightarrow>
          if \<not> alloc_ok then None else Some \<lparr>anim_spritesheet = sh, sequences = []\<rparr>)"

text \<open>\<open>gfxDrawAnimationAddSequence\<close>: the sequence is linked behind the last one.\<close>

definition gfxDrawAnimationAddSequence ::
  "bool \<Rightarrow> animated_image option \<Rightarrow> string option \<Rightarrow> uint \<Rightarrow> uint
     \<Rightarrow> sprite_sequence_direction \<Rightarrow> uint \<Rightarrow> int \<times> animated_image option" where
  "gfxDrawAnimationAddSequence alloc_ok animation name row col dir n =
     (case animation of
        None \<Rightarrow> (-1, animation)
      | Some anim \<Rightarrow>
          (case name of
             None \<Rightarrow> (-1, animation)
           | Some nm \<Rightarrow>
               if \<not> alloc_ok then (-1, animation)
               else (0, Some (anim\<lparr>sequences := sequences anim @
                       [\<lparr>seq_name = nm, start_row = row, start_col = col, direction = dir,
                         frames = n\<rparr>]\<rparr>))))"

text \<open>\<open>gfxDrawAnimationSequenceInstantiate\<close>: a zero frame period is refused; the
  first sequence of that name is taken; the instance starts zeroed.\<close>

definition gfxDrawAnimationSequenceInstantiate ::
  "bool \<Rightarrow> animated_image option \<Rightarrow> string option \<Rightarrow> uint
     \<Rightarrow> animated_sequence_instance option" where
  "gfxDrawAnimationSequenceInstantiate alloc_ok animation sequence_name period =
     (case animation of
        None \<Rightarrow> None
      | Some anim \<Rightarrow>
          (case sequence_name of
             None \<Rightarrow> None
           | Some nm \<Rightarrow>
               if period = 0 then None
               else if \<not> alloc_ok then None
               else
                 (case find (\<lambda>q. seq_name q = nm) (sequences anim) of
                    None \<Rightarrow> None
                  | Some q \<Rightarrow>
                      Some \<lparr>frame_period_ms = period, current_frame = 0,
                            prev_frame_timestamp = 0, cur_frame_timestamp = 0,
                            inst_image = anim, inst_sequence = q\<rparr>)))"

text \<open>
  The timing part of \<open>gfxDrawAnimationDrawFrame\<close>: the time step is added, and when
  the current time is beyond the previous frame's time by more than one period the
  frame index moves by the number of whole periods. \<open>current_frame\<close> is a signed
  \<open>int\<close> updated with \<open>unsigned\<close> operands; \<open>%\<close> by a zero frame count traps.
\<close>

definition is_positive :: "sprite_sequence_direction \<Rightarrow> bool" where
  "is_positive d = (d = SPRITE_SEQUENCE_HORIZONTAL_POS \<or> d = SPRITE_SEQUENCE_VERTICAL_POS)"

definition is_horizontal :: "sprite_sequence_direction \<Rightarrow> bool" where
  "is_horizontal d = (d = SPRITE_SEQUENCE_HORIZONTAL_POS \<or> d = SPRITE_SEQUENCE_HORIZONTAL_NEG)"

definition advance_frame ::
  "animated_sequence_instance \<Rightarrow> uint \<Rightarrow> animated_sequence_instance result" where
  "advance_frame anim ms_timestep =
     (let a1 = anim\<lparr>cur_frame_timestamp := cur_frame_timestamp anim + ms_timestep\<rparr> in
      if cur_frame_timestamp a1 > prev_frame_timestamp a1 + frame_period_ms a1 then
        (if frame_period_ms a1 = 0 then Inl Div_by_zero
         else
           (let steps = (cur_frame_timestamp a1 - prev_frame_timestamp a1)
                          div frame_period_ms a1
            in if is_positive (direction (inst_sequence a1)) then
                 (if frames (inst_sequence a1) = 0 then Inl Div_by_zero
                  else Inr (a1\<lparr>current_frame :=
                                  (current_frame a1 + steps) mod frames (inst_sequence a1),
                                prev_frame_timestamp :=
                                  prev_frame_timestamp a1 + steps * frame_period_ms a1\<rparr>))
               else
                 Inr (a1\<lparr>current_frame :=
                            (if current_frame a1 - steps = -1
                             then frames (inst_sequence a1) - 1
                             else current_frame a1 - steps),
                          prev_frame_timestamp :=
                            prev_frame_timestamp a1 + steps * frame_period_ms a1\<rparr>)))
      else Inr a1)"

text \<open>
  \<open>gfxDrawAnimationDrawFrame\<close>: advance the instance, then queue a cropped draw of the
  cell of the current frame. The result is the return value, the instance and the state.
\<close>

definition gfxDrawAnimationDrawFrame ::
  "allocs \<Rightarrow> animated_sequence_instance option \<Rightarrow> uint \<Rightarrow> cint \<Rightarrow> cint \<Rightarrow> gfx_state
     \<Rightarrow> (int \<times> animated_sequence_instance option \<times> gfx_state) result" where
  "gfxDrawAnimationDrawFrame al sequence ms_timestep x y s =
     (case sequence of
        None \<Rightarrow> Inr (-1, None, s)
      | Some anim0 \<Rightarrow>
          (case advance_frame anim0 ms_timestep of
             Inl f \<Rightarrow> Inl f
           | Inr anim \<Rightarrow>
               (case INIT_JOB al (DRAW_LOADED_IMAGE_CROP zero_crop) s of
                  Inl f \<Rightarrow> Inl f
                | Inr None \<Rightarrow> Inr (-1, Some anim, s)
                | Inr (Some s1) \<Rightarrow>
                    (let sh = anim_spritesheet (inst_image anim); q = inst_sequence anim in
                     case image_at (ss_image sh) s1 of
                       Inl f \<Rightarrow> Inl f
                     | Inr i \<Rightarrow>
                         if frames q = 0 then Inl Div_by_zero
                         else
                           Inr (0, Some anim,
                                set_job (DRAW_LOADED_IMAGE_CROP
                                  \<lparr>crop_image = ss_image sh, crop_x = x, crop_y = y,
                                   crop_c_x =
                                     (if is_horizontal (direction q)
                                      then ss_x sh + ((current_frame anim + start_col q)
                                                        mod frames q)
                                                     * (sprite_width sh + padding_x sh * 2)
                                      else ss_x sh + start_col q
                                                     * (sprite_width sh + padding_x sh * 2)),
                                   crop_c_y =
                                     (if is_horizontal (direction q)
                                      then ss_y sh + start_row q
                                                     * (sprite_height sh + padding_y sh * 2)
                                      else ss_y sh + ((current_frame anim + start_row q)
                                                        mod frames q)
                                                     * (sprite_height sh + padding_y sh * 2)),
                                   crop_c_w = sprite_width sh,
                                   crop_c_h = sprite_height sh\<rparr>)
                                  (update_image (iaddr i)
                                     (\<lambda>i. i\<lparr>img_ref_count := img_ref_count i + 1\<rparr>) s1))))))"

text \<open>\<open>gfxDrawAnimationReset\<close>.\<close>

definition gfxDrawAnimationReset :: "animated_sequence_instance \<Rightarrow> animated_sequence_instance" where
  "gfxDrawAnimationReset anim =
     anim\<lparr>prev_frame_timestamp := 0, cur_frame_timestamp := 0,
          current_frame := (if is_horizontal (direction (inst_sequence anim))
                            then start_col (inst_sequence anim)
                            else start_row (inst_sequence anim))\<rparr>"

section \<open>Sequences of draw requests\<close>

text \<open>
  A call of one of the public draw functions with its arguments and with the outcome of
  its allocations. Calls from several threads reach the queue one after the other,
  in the order in which \<open>_pushDrawJob\<close> takes the queue lock; a list of requests is
  such an order. A request that returns -1 does not stop its caller, so the requests
  after it are run; a fault ends the run.
\<close>

datatype request =
    Clear_request allocs uint
  | Box_request allocs sshort sshort sshort sshort uint
  | FilledBox_request allocs sshort sshort sshort sshort uint
  | Circle_request allocs sshort sshort sshort uint
  | Ellipse_request allocs sshort sshort sshort sshort uint
  | Arc_request allocs sshort sshort sshort sshort sshort uint
  | Line_request allocs sshort sshort sshort sshort uchar uint
  | Arrow_request allocs sshort sshort sshort sshort sshort uchar uint
  | Poly_request allocs "coord list option" cint uint
  | Triangle_request allocs "coord list option" uint
  | Text_request allocs "string option" sshort sshort uint
  | CenteredText_request text_env allocs "string option" sshort sshort uint
  | Image_request allocs "string option" sshort sshort
  | ScaledImage_request allocs "string option" sshort sshort cfloat
  | LoadedImage_request allocs "addr option" sshort sshort
  | Sprite_request allocs "spritesheet option" cchar cchar sshort sshort
  | AnimationFrame_request allocs "animated_sequence_instance option" uint cint cint

fun run_request :: "request \<Rightarrow> gfx_state \<Rightarrow> (int \<times> gfx_state) result" where
  "run_request (Clear_request al colour) s = gfxDrawClear al colour s"
| "run_request (Box_request al x y w h colour) s = gfxDrawBox al x y w h colour s"
| "run_request (FilledBox_request al x y w h colour) s = gfxDrawFilledBox al x y w h colour s"
| "run_request (Circle_request al x y radius colour) s = gfxDrawCircle al x y radius colour s"
| "run_request (Ellipse_request al x y rx ry colour) s = gfxDrawEllipse al x y rx ry colour s"
| "run_request (Arc_request al x y radius start en colour) s =
     gfxDrawArc al x y radius start en colour s"
| "run_request (Line_request al x1 y1 x2 y2 thickness colour) s =
     gfxDrawLine al x1 y1 x2 y2 thickness colour s"
| "run_request (Arrow_request al x1 y1 x2 y2 head_length thickness colour) s =
     gfxDrawArrow al x1 y1 x2 y2 head_length thickness colour s"
| "run_request (Poly_request al points n colour) s = gfxDrawPoly al points n colour s"
| "run_request (Triangle_request al points colour) s = gfxDrawTriangle al points colour s"
| "run_request (Text_request al str x y colour) s = gfxDrawText al str x y colour s"
| "run_request (CenteredText_request te al str x y colour) s =
     gfxDrawCenteredText te al str x y colour s"
| "run_request (Image_request al abs_path x y) s = gfxDrawImage al abs_path x y s"
| "run_request (ScaledImage_request al abs_path x y scale) s =
     gfxDrawScaledImage al abs_path x y scale s"
| "run_request (LoadedImage_request al img x y) s = gfxDrawLoadedImage al img x y s"
| "run_request (Sprite_request al sheet column row x y) s =
     gfxDrawSprite al sheet column row x y s"
| "run_request (AnimationFrame_request al sequence ms_timestep x y) s =
     (case gfxDrawAnimationDrawFrame al sequence ms_timestep x y s of
        Inl f \<Rightarrow> Inl f
      | Inr (ret, anim, s1) \<Rightarrow> Inr (ret, s1))"

fun run_requests :: "request list \<Rightarrow> gfx_state \<Rightarrow> gfx_state result" where
  "run_requests [] s = Inr s"
| "run_requests (r # rs) s =
     (case run_request r s of
        Inl f \<Rightarrow> Inl f
      | Inr (ret, s1) \<Rightarrow> run_requests rs s1)"

text \<open>The jobs a request appends: what the queue holds behind its old contents once
  the request has returned; for a list of requests, these jobs request by request.\<close>

definition enqueued_by :: "request \<Rightarrow> gfx_state \<Rightarrow> draw_job list" where
  "enqueued_by r s =
     (case run_request r s of
        Inl f \<Rightarrow> []
      | Inr (ret, s1) \<Rightarrow> drop (length (job_list s)) (job_list s1))"

fun enqueued :: "request list \<Rightarrow> gfx_state \<Rightarrow> draw_job list" where
  "enqueued [] s = []"
| "enqueued (r # rs) s =
     (case run_request r s of
        Inl f \<Rightarrow> []
      | Inr (ret, s1) \<Rightarrow> enqueued_by r s @ enqueued rs s1)"

text \<open>The queue of \<open>s1\<close> is the queue of \<open>s\<close> with at most one job behind it.\<close>

definition extends :: "gfx_state \<Rightarrow> gfx_state \<Rightarrow> bool" where
  "extends s s1 = (\<exists>new. job_list s1 = job_list s @ new \<and> length new \<le> 1)"

section \<open>The call a job stands for\<close>

text \<open>
  The helper call that the switch of \<open>vHandleDrawJob\<close> makes for a job under the
  offset \<open>(xo, yo)\<close>, as a list: a node without payload makes no call, and a job
  whose image or points are missing makes none before it faults.
\<close>

definition dispatched :: "cint \<Rightarrow> cint \<Rightarrow> draw_job \<Rightarrow> backend_call list" where
  "dispatched xo yo job =
     (case job of
        DRAW_NONE \<Rightarrow> []
      | DRAW_CLEAR d \<Rightarrow> [Clear (clear_colour d)]
      | DRAW_ARC d \<Rightarrow>
          [Arc (add_offset (arc_x d) xo) (add_offset (arc_y d) yo) (arc_radius d) (arc_start d)
             (arc_end d) (arc_colour d)]
      | DRAW_ELLIPSE d \<Rightarrow>
          [Ellipse (add_offset (ellipse_x d) xo) (ellipse_y d) (ellipse_rx d) (ellipse_ry d)
             (ellipse_colour d)]
      | DRAW_TEXT d \<Rightarrow>
          [Text (text_str d) (add_offset (text_x d) xo) (add_offset (text_y d) yo)
             (text_colour d) (text_font d)]
      | DRAW_RECT d \<Rightarrow>
          [Rect (add_offset (rect_x d) xo) (add_offset (rect_y d) yo) (rect_w d) (rect_h d)
             (rect_colour d)]
      | DRAW_FILLED_RECT d \<Rightarrow>
          [Filled_rect (add_offset (rect_x d) xo) (add_offset (rect_y d) yo) (rect_w d)
             (rect_h d) (rect_colour d)]
      | DRAW_CIRCLE d \<Rightarrow>
          [Circle (add_offset (circle_x d) xo) (add_offset (circle_y d) yo) (circle_radius d)
             (circle_colour d)]
      | DRAW_LINE d \<Rightarrow>
          [Line (add_offset (line_x1 d) xo) (add_offset (line_y1 d) yo)
             (add_offset (line_x2 d) xo) (add_offset (line_y2 d) yo) (line_thickness d)
             (line_colour d)]
      | DRAW_POLY d \<Rightarrow>
          (case poly_points d of
             None \<Rightarrow> [Polygon [] [] (poly_n d) (ucast (poly_colour d))]
           | Some ps \<Rightarrow>
               [Polygon (map (\<lambda>p. add_offset (coord_x p) xo) (take (unat (poly_n d)) ps))
                  (map (\<lambda>p. add_offset (coord_y p) yo) (take (unat (poly_n d)) ps))
                  (poly_n d) (ucast (poly_colour d))])
      | DRAW_TRIANGLE d \<Rightarrow>
          (case triangle_points d of
             Some (p0 # p1 # p2 # rest) \<Rightarrow>
               [Triangle (add_offset (coord_x p0) xo) (add_offset (coord_y p0) yo)
                  (add_offset (coord_x p1) xo) (add_offset (coord_y p1) yo)
                  (add_offset (coord_x p2) xo) (add_offset (coord_y p2) yo)
                  (triangle_colour d)]
           | _ \<Rightarrow> [])
      | DRAW_IMAGE d \<Rightarrow>
          [Image (image_filename d) (add_offset (image_x d) xo) (add_offset (image_y d) yo)]
      | DRAW_LOADED_IMAGE d \<Rightarrow>
          (case loaded_image_img d of
             None \<Rightarrow> []
           | Some a \<Rightarrow>
               [Loaded_image a (add_offset (loaded_image_x d) xo)
                  (add_offset (loaded_image_y d) yo)])
      | DRAW_LOADED_IMAGE_CROP d \<Rightarrow>
          (case crop_image d of
             None \<Rightarrow> []
           | Some a \<Rightarrow>
               [Loaded_image_crop a (short_of_int (crop_x d + xo)) (short_of_int (crop_y d + yo))
                  (short_of_int (crop_c_x d)) (short_of_int (crop_c_y d))
                  (short_of_int (crop_c_w d)) (short_of_int (crop_c_h d))])
      | DRAW_SCALED_IMAGE d \<Rightarrow>
          [Scaled_image (image_filename (scaled_image d))
             (add_offset (image_x (scaled_image d)) xo)
             (add_offset (image_y (scaled_image d)) yo) (scaled_scale d)]
      | DRAW_ARROW d \<Rightarrow>
          [Arrow (add_offset (arrow_x1 d) xo) (add_offset (arrow_y1 d) yo)
             (add_offset (arrow_x2 d) xo) (add_offset (arrow_y2 d) yo) (arrow_head_length d)
             (arrow_thickness d) (arrow_colour d)])"

section \<open>Centred text, as the specification words it\<close>

text \<open>
  The specification's reading of \<open>gfxDrawCenteredText\<close>: measure the string with
  \<open>gfxGetTextSize\<close>, then call \<open>gfxDrawText\<close> at \<open>x - w/2\<close> and
  \<open>y - h/2\<close>, the halves truncated towards zero and the differences taken in the
  integers; if measuring fails, return -1. It is compared below with the definition
  taken from the code, which computes in 32-bit \<open>int\<close> and passes the result as a
  \<open>signed short\<close>.
\<close>

definition half_truncated :: "int \<Rightarrow> int" where
  "half_truncated k = (if 0 \<le> k then k div 2 else - ((- k) div 2))"

definition centered_text_spec ::
  "text_env \<Rightarrow> allocs \<Rightarrow> string option \<Rightarrow> sshort \<Rightarrow> sshort \<Rightarrow> uint \<Rightarrow> gfx_state
     \<Rightarrow> (int \<times> gfx_state) result" where
  "centered_text_spec te al str x y colour s =
     (case gfxGetTextSize te str s of
        Inl f \<Rightarrow> Inl f
      | Inr (None, s1) \<Rightarrow> Inr (-1, s1)
      | Inr (Some (w, h), s1) \<Rightarrow>
          gfxDrawText al str
            (word_of_int (sint x - half_truncated (sint w)))
            (word_of_int (sint y - half_truncated (sint h))) colour s1)"

section \<open>Concrete inputs\<close>

text \<open>A state with one loaded image and one font, and a four-frame animation on a
  4 by 4 sheet, for the concrete instances below.\<close>

definition demo_image :: loaded_image where
  "demo_image = \<lparr>iaddr = 1, img_filename = ''sheet.png'', img_tex = 7, img_w = 64, img_h = 64,
     img_scale = 0x3F800000, img_ref_count = 0, img_pending_free = 0\<rparr>"

definition demo_font :: gfx_font where
  "demo_font = \<lparr>faddr = 2, font_path = ''fonts/IBMPlexSans-Bold.ttf'',
     font_name = ''IBMPlexSans-Bold.ttf'', font_font = Some 11, font_ref_count = 0,
     font_pending_free = 0, font_size = 15\<rparr>"

definition demo_state :: gfx_state where
  "demo_state = \<lparr>job_list = [], global_offset_x = 0, global_offset_y = 0,
     loaded_images_list = [demo_image], font_list_ref_count = 0, font_list = [demo_font],
     cur_default_font = Some 2, freed = [], closed_fonts = [], destroyed_textures = [],
     draw_trace = [], presented = 0\<rparr>"

definition all_ok :: allocs where
  "all_ok = \<lparr>job_alloc = True, data_alloc = True, payload_alloc = True\<rparr>"

definition demo_sheet :: spritesheet where
  "demo_sheet = \<lparr>ss_image = Some 1, ss_x = 0, ss_y = 0, ss_width = 64, ss_height = 64,
     sprite_width = 16, sprite_height = 16, sprite_cols = 4, sprite_rows = 4,
     padding_x = 0, padding_y = 0\<rparr>"

definition walk_left :: spritesheet_sequence where
  "walk_left = \<lparr>seq_name = ''walk_left'', start_row = 0, start_col = 0,
     direction = SPRITE_SEQUENCE_HORIZONTAL_NEG, frames = 4\<rparr>"

definition demo_animation :: animated_image where
  "demo_animation = \<lparr>anim_spritesheet = demo_sheet, sequences = [walk_left]\<rparr>"

definition neg_instance :: animated_sequence_instance where
  "neg_instance = \<lparr>frame_period_ms = 100, current_frame = 0, prev_frame_timestamp = 0,
     cur_frame_timestamp = 0, inst_image = demo_animation, inst_sequence = walk_left\<rparr>"

definition gl_env :: env where
  "gl_env = \<lparr>is_gl_thread = True, fps_hold = False, offset_lock_ok = True,
     sdl_rc = (\<lambda>c. 0), scratch_alloc = True\<rparr>"

definition no_payload :: allocs where
  "no_payload = \<lparr>job_alloc = True, data_alloc = True, payload_alloc = False\<rparr>"

definition padded_box :: spritesheet where
  "padded_box = \<lparr>ss_image = Some 1, ss_x = 0, ss_y = 0, ss_width = 64, ss_height = 64,
     sprite_width = 0, sprite_height = 0, sprite_cols = 0, sprite_rows = 0,
     padding_x = 1, padding_y = 1\<rparr>"

definition tight_box :: spritesheet where
  "tight_box = \<lparr>ss_image = Some 1, ss_x = 0, ss_y = 0, ss_width = 10, ss_height = 10,
     sprite_width = 0, sprite_height = 0, sprite_cols = 0, sprite_rows = 0,
     padding_x = 3, padding_y = 3\<rparr>"

text \<open>A sheet whose box of 32 by 32 pixels starts at (32, 32) in the image, divided
  into 2 by 2 cells, with a sequence that starts at its cell (1, 1); and a padded box of
  62 by 62 pixels, which four cells of 14 pixels and the padding between them fill
  exactly.\<close>

definition corner_box :: spritesheet where
  "corner_box = \<lparr>ss_image = Some 1, ss_x = 32, ss_y = 32, ss_width = 32, ss_height = 32,
     sprite_width = 16, sprite_height = 16, sprite_cols = 2, sprite_rows = 2,
     padding_x = 0, padding_y = 0\<rparr>"

definition corner_sequence :: spritesheet_sequence where
  "corner_sequence = \<lparr>seq_name = ''corner'', start_row = 1, start_col = 1,
     direction = SPRITE_SEQUENCE_HORIZONTAL_POS, frames = 2\<rparr>"

definition corner_animation :: animated_image where
  "corner_animation = \<lparr>anim_spritesheet = corner_box, sequences = [corner_sequence]\<rparr>"

definition corner_instance :: animated_sequence_instance where
  "corner_instance = \<lparr>frame_period_ms = 100, current_frame = 0, prev_frame_timestamp = 0,
     cur_frame_timestamp = 0, inst_image = corner_animation, inst_sequence = corner_sequence\<rparr>"

definition filled_box :: spritesheet where
  "filled_box = \<lparr>ss_image = Some 1, ss_x = 0, ss_y = 0, ss_width = 62, ss_height = 62,
     sprite_width = 0, sprite_height = 0, sprite_cols = 0, sprite_rows = 0,
     padding_x = 1, padding_y = 1\<rparr>"

definition measured :: text_env where
  "measured = \<lparr>TTF_RenderText_Solid = (\<lambda>f st. Some 1),
     SDL_CreateTextureFromSurface = (\<lambda>surface. Some 2),
     SDL_QueryTexture = (\<lambda>texture. Some (11, 7))\<rparr>"

definition unrendered :: text_env where
  "unrendered = \<lparr>TTF_RenderText_Solid = (\<lambda>f st. None),
     SDL_CreateTextureFromSurface = (\<lambda>surface. Some 2),
     SDL_QueryTexture = (\<lambda>texture. Some (11, 7))\<rparr>"

definition held_font :: gfx_font where
  "held_font = demo_font\<lparr>font_ref_count := 1\<rparr>"

definition held_state :: gfx_state where
  "held_state = demo_state\<lparr>font_list := [held_font]\<rparr>"

definition resized_font :: gfx_font where
  "resized_font = \<lparr>faddr = 3, font_path = ''fonts/IBMPlexSans-Bold.ttf'',
     font_name = ''IBMPlexSans-Bold.ttf'', font_font = Some 12, font_ref_count = 0,
     font_pending_free = 0, font_size = 20\<rparr>"

definition fe_resize :: font_env where
  "fe_resize = \<lparr>fonts_dir = ''fonts/'', MAX_FONT_NAME_LENGTH = 256, node_alloc = Some 3,
     path_alloc = True, TTF_OpenFont = (\<lambda>p sz. Some 12)\<rparr>"

definition fe_init :: font_env where
  "fe_init = \<lparr>fonts_dir = ''fonts/'', MAX_FONT_NAME_LENGTH = 256, node_alloc = Some 2,
     path_alloc = True, TTF_OpenFont = (\<lambda>p sz. Some 11)\<rparr>"

definition fe_unopened :: font_env where
  "fe_unopened = \<lparr>fonts_dir = ''fonts/'', MAX_FONT_NAME_LENGTH = 256, node_alloc = Some 3,
     path_alloc = True, TTF_OpenFont = (\<lambda>p sz. None)\<rparr>"

definition blank_state :: gfx_state where
  "blank_state = \<lparr>job_list = [], global_offset_x = 0, global_offset_y = 0,
     loaded_images_list = [], font_list_ref_count = 0, font_list = [],
     cur_default_font = None, freed = [], closed_fonts = [], destroyed_textures = [],
     draw_trace = [], presented = 0\<rparr>"

definition stale_font :: gfx_font where
  "stale_font = demo_font\<lparr>font_ref_count := 1, font_pending_free := 1\<rparr>"

definition stale_state :: gfx_state where
  "stale_state = blank_state\<lparr>font_list := [stale_font]\<rparr>"

definition panned_state :: gfx_state where
  "panned_state = demo_state\<lparr>global_offset_x := 3, global_offset_y := 5\<rparr>"

section \<open>Basic facts about the queue macro\<close>

lemma INIT_JOB_pushed:
  "job_alloc al \<Longrightarrow> data_alloc al \<Longrightarrow>
     INIT_JOB al z s = Inr (Some (s\<lparr>job_list := job_list s @ [z]\<rparr>))"
  by (simp add: INIT_JOB_def pushDrawJob_def set_job_def)

lemma INIT_JOB_no_node: "\<not> job_alloc al \<Longrightarrow> INIT_JOB al z s = Inr None"
  by (simp add: INIT_JOB_def pushDrawJob_def)

lemma INIT_JOB_exit:
  "job_alloc al \<Longrightarrow> \<not> data_alloc al \<Longrightarrow> INIT_JOB al z s = Inl Process_exit"
  by (simp add: INIT_JOB_def pushDrawJob_def)

lemma set_job_pushed [simp]:
  "set_job j (s\<lparr>job_list := js @ [z]\<rparr>) = s\<lparr>job_list := js @ [j]\<rparr>"
  by (simp add: set_job_def)

lemma image_at_job_list [simp]: "image_at h (s\<lparr>job_list := js\<rparr>) = image_at h s"
  by (cases h) (simp_all add: image_at_def)

lemma update_image_job_list [simp]:
  "job_list (update_image a u s) = job_list s"
  by (simp add: update_image_def)

lemma image_at_demo: "image_at (Some 1) demo_state = Inr demo_image"
  by (simp add: image_at_def demo_state_def demo_image_def)

section \<open>The drain follows the queue\<close>

lemma vPutLoadedImage_trace: "vPutLoadedImage h s = Inr s' \<Longrightarrow> draw_trace s' = draw_trace s"
  by (simp add: vPutLoadedImage_frame)

lemma vHandleDrawJob_trace:
  assumes "vHandleDrawJob e j s = Inr (r, s')" and "offset_lock_ok e"
  shows "draw_trace s' = draw_trace s @ dispatched (global_offset_x s) (global_offset_y s) j"
proof (cases j)
  case (DRAW_TEXT d)
  with assms show ?thesis
    by (auto simp: vHandleDrawJob_def drawText_def dispatched_def Let_def
             split: if_splits sum.splits dest!: gfxFontPutFont_frame)
next
  case (DRAW_LOADED_IMAGE d)
  with assms show ?thesis
    by (auto simp: vHandleDrawJob_def then_put_image_def xDrawLoadedImage_def dispatched_def
                   Let_def
             split: if_splits sum.splits prod.splits
             dest!: vPutLoadedImage_trace image_at_addr)
next
  case (DRAW_LOADED_IMAGE_CROP d)
  with assms show ?thesis
    by (auto simp: vHandleDrawJob_def then_put_image_def xDrawLoadedImageCropped_def
                   dispatched_def Let_def
             split: if_splits sum.splits prod.splits
             dest!: vPutLoadedImage_trace image_at_addr)
next
  case (DRAW_POLY d)
  with assms show ?thesis
    by (auto simp: vHandleDrawJob_def drawPoly_def dispatched_def Let_def
             split: if_splits option.splits)
next
  case (DRAW_TRIANGLE d)
  with assms show ?thesis
    by (auto simp: vHandleDrawJob_def drawTriangle_def dispatched_def Let_def
             split: if_splits option.splits list.splits)
qed (use assms in \<open>auto simp: vHandleDrawJob_def dispatched_def Let_def clearDisplay_def
       drawArc_def drawEllipse_def drawRectangle_def drawFilledRectangle_def drawCircle_def
       drawLine_def drawImage_def drawScaledImage_def drawArrow_def split: if_splits\<close>)

lemma drain_jobs_Nil:
  "job_list s = [] \<Longrightarrow> drain_jobs e s = Inr (0, s\<lparr>presented := Suc (presented s)\<rparr>)"
  by (subst drain_jobs.simps) (simp add: popDrawJob_def)

lemma drain_jobs_Cons:
  "job_list s = j # js \<Longrightarrow> j \<noteq> DRAW_NONE \<Longrightarrow>
     drain_jobs e s =
       (case vHandleDrawJob e j (s\<lparr>job_list := js\<rparr>) of
          Inl f \<Rightarrow> Inl f
        | Inr (r, s2) \<Rightarrow> if r = -1 then Inr (-1, s2) else drain_jobs e s2)"
  by (subst drain_jobs.simps) (simp add: popDrawJob_def)

lemma drain_jobs_none:
  "job_list s = DRAW_NONE # js \<Longrightarrow> drain_jobs e s = Inr (-1, s\<lparr>job_list := js\<rparr>)"
  by (subst drain_jobs.simps) (simp add: popDrawJob_def)

lemma drain_jobs_trace:
  assumes "drain_jobs e s = Inr (0, s')"
  shows "draw_trace s' = draw_trace s
           @ concat (map (dispatched (global_offset_x s) (global_offset_y s)) (job_list s))
         \<and> job_list s' = [] \<and> presented s' = Suc (presented s)"
  using assms
proof (induction "length (job_list s)" arbitrary: s)
  case 0
  then show ?case by (simp add: drain_jobs_Nil) auto
next
  case (Suc n)
  then obtain j js where js: "job_list s = j # js" "length js = n"
    by (cases "job_list s") auto
  show ?case
  proof (cases "j = DRAW_NONE")
    case True
    with js Suc.prems show ?thesis by (simp add: drain_jobs_none)
  next
    case False
    with js Suc.prems obtain r s2 where
      h: "vHandleDrawJob e j (s\<lparr>job_list := js\<rparr>) = Inr (r, s2)" "r \<noteq> -1"
         "drain_jobs e s2 = Inr (0, s')"
      by (auto simp: drain_jobs_Cons split: sum.splits if_splits)
    have lock: "offset_lock_ok e"
      using h(1,2) by (auto simp: vHandleDrawJob_def split: if_splits)
    have fr: "job_list s2 = js" "global_offset_x s2 = global_offset_x s"
      "global_offset_y s2 = global_offset_y s" "presented s2 = presented s"
      using vHandleDrawJob_frame [OF h(1)] by simp_all
    have tr: "draw_trace s2 = draw_trace s @ dispatched (global_offset_x s) (global_offset_y s) j"
      using vHandleDrawJob_trace [OF h(1) lock] by simp
    have "n = length (job_list s2)" using fr js by simp
    from Suc.hyps(1) [OF this h(3)] show ?thesis
      using fr tr js by simp
  qed
qed

section \<open>The concrete inputs are constructed values\<close>

text \<open>The concrete animation and sheets are what the construction functions give.\<close>

lemma demo_inputs_constructed:
  "gfxDrawInitSpritesheet True (Some 1) demo_state
     = Inr (Some (demo_sheet\<lparr>sprite_width := 0, sprite_height := 0, sprite_cols := 0,
                               sprite_rows := 0\<rparr>))"
  "gfxDrawSpritesheetSetDivisions
     (demo_sheet\<lparr>sprite_width := 0, sprite_height := 0, sprite_cols := 0, sprite_rows := 0\<rparr>)
     4 4 = Inr demo_sheet"
  "gfxDrawSpritesheetSetPadding
     (gfxDrawSpritesheetSetBoundingBox
        (demo_sheet\<lparr>sprite_width := 0, sprite_height := 0, sprite_cols := 0, sprite_rows := 0\<rparr>)
        0 0 64 64) 1 1 = padded_box"
  "gfxDrawSpritesheetSetPadding
     (gfxDrawSpritesheetSetBoundingBox
        (demo_sheet\<lparr>sprite_width := 0, sprite_height := 0, sprite_cols := 0, sprite_rows := 0\<rparr>)
        0 0 10 10) 3 3 = tight_box"
  "gfxDrawAnimationAddSequence True (gfxDrawAnimationCreate True (Some demo_sheet))
     (Some ''walk_left'') 0 0 SPRITE_SEQUENCE_HORIZONTAL_NEG 4 = (0, Some demo_animation)"
  "gfxDrawAnimationSequenceInstantiate True (Some demo_animation) (Some ''walk_left'') 100
     = Some neg_instance"
  by (simp_all add: gfxDrawInitSpritesheet_def image_at_def demo_state_def demo_image_def
        demo_sheet_def gfxDrawSpritesheetSetDivisions_def gfxDrawSpritesheetSetPadding_def
        gfxDrawSpritesheetSetBoundingBox_def padded_box_def tight_box_def
        gfxDrawAnimationAddSequence_def gfxDrawAnimationCreate_def demo_animation_def
        walk_left_def gfxDrawAnimationSequenceInstantiate_def neg_instance_def)


section \<open>Animation timing\<close>

lemma advance_frame_negative_first:
  assumes "frame_period_ms a = 100" "current_frame a = 0" "prev_frame_timestamp a = 0"
    "cur_frame_timestamp a = 0" "direction (inst_sequence a) = SPRITE_SEQUENCE_HORIZONTAL_NEG"
    "frames (inst_sequence a) = 4" "ms < 200"
  shows "advance_frame a ms =
           Inr (if ms \<le> 100 then a\<lparr>cur_frame_timestamp := ms\<rparr>
                else a\<lparr>cur_frame_timestamp := ms, current_frame := 3,
                       prev_frame_timestamp := 100\<rparr>)"
proof (cases "ms \<le> 100")
  case True
  then have "\<not> 100 < ms" by simp
  then show ?thesis using assms True
    by (simp add: advance_frame_def Let_def)
next
  case False
  then have gt: "100 < ms" by simp
  have "unat ms div 100 = 1"
    using gt assms(7) by (simp add: word_less_nat_alt)
  then have "unat (ms div 100) = unat (1 :: 32 word)"
    by (simp add: unat_div)
  then have "ms div 100 = 1"
    by (simp only: word_unat_eq_iff)
  then show ?thesis using assms gt False
    by (simp add: advance_frame_def Let_def is_positive_def)
qed


text \<open>
  Claim C4, as amended. For a sequence instance with four frames, direction
  horizontal-negative, a frame period of 100 ms, current frame 0 and both time
  accumulators zero, one call of \<open>gfxDrawAnimationDrawFrame\<close> returns with the frame
  index unchanged when the time step is at most 100 ms, because the index moves only
  when the current time is strictly beyond the previous time plus one period; with a
  time step from 101 to 199 ms the index wraps to 3, the last frame. The call returns
  whenever the sheet's image is loaded and the payload union can be allocated.
\<close>

theorem animation_negative_first_step:
  assumes "frame_period_ms a = 100" and "current_frame a = 0"
    and "prev_frame_timestamp a = 0" and "cur_frame_timestamp a = 0"
    and "direction (inst_sequence a) = SPRITE_SEQUENCE_HORIZONTAL_NEG"
    and "frames (inst_sequence a) = 4"
    and "ms < 200"
    and "data_alloc al"
    and "image_at (ss_image (anim_spritesheet (inst_image a))) s = Inr i"
  shows "\<exists>r a' s'. gfxDrawAnimationDrawFrame al (Some a) ms x y s = Inr (r, Some a', s')
           \<and> current_frame a' = (if ms \<le> 100 then 0 else 3)"
proof -
  let ?a' = "if ms \<le> 100 then a\<lparr>cur_frame_timestamp := ms\<rparr>
             else a\<lparr>cur_frame_timestamp := ms, current_frame := 3,
                    prev_frame_timestamp := 100\<rparr>"
  have adv: "advance_frame a ms = Inr ?a'"
    using assms(1-7) by (rule advance_frame_negative_first)
  have same: "inst_image ?a' = inst_image a" "inst_sequence ?a' = inst_sequence a"
    by simp_all
  have cur: "current_frame ?a' = (if ms \<le> 100 then 0 else 3)"
    using assms(2) by simp
  show ?thesis
  proof (cases "job_alloc al")
    case False
    then have "gfxDrawAnimationDrawFrame al (Some a) ms x y s = Inr (-1, Some ?a', s)"
      by (simp add: gfxDrawAnimationDrawFrame_def adv INIT_JOB_no_node del: if_split)
    with cur show ?thesis by blast
  next
    case True
    then have "\<exists>s'. gfxDrawAnimationDrawFrame al (Some a) ms x y s = Inr (0, Some ?a', s')"
      using assms(6,8,9) same
      by (simp add: gfxDrawAnimationDrawFrame_def adv INIT_JOB_pushed Let_def del: if_split)
    with cur show ?thesis by blast
  qed
qed

theorem animation_negative_first_step_witness:
  "\<exists>r a' s'. gfxDrawAnimationDrawFrame all_ok (Some neg_instance) 101 0 0 demo_state
                 = Inr (r, Some a', s') \<and> current_frame a' = 3"
  using animation_negative_first_step [of neg_instance 101 all_ok demo_state demo_image 0 0]
    image_at_demo
  by (simp add: neg_instance_def walk_left_def demo_animation_def demo_sheet_def all_ok_def)

text \<open>
  Claim C4 as stated fails: with a time step of exactly 100 ms the call returns 0 and
  leaves the current frame at 0, not at 3.
\<close>

theorem animation_negative_step_100_counterexample:
  "map_sum id (\<lambda>(r, a, s). (r, map_option current_frame a))
     (gfxDrawAnimationDrawFrame all_ok (Some neg_instance) 100 0 0 demo_state)
   = Inr (0, Some 0)"
  by (simp add: gfxDrawAnimationDrawFrame_def advance_frame_def INIT_JOB_pushed Let_def
        neg_instance_def walk_left_def demo_animation_def demo_sheet_def all_ok_def
        image_at_def demo_state_def demo_image_def is_horizontal_def)


section \<open>The offset at dispatch\<close>

lemma gfxDrawEllipse_pushed:
  "job_alloc al \<Longrightarrow> data_alloc al \<Longrightarrow>
     gfxDrawEllipse al x y rx ry colour s =
       Inr (0, s\<lparr>job_list := job_list s @ [DRAW_ELLIPSE \<lparr>ellipse_x = x, ellipse_y = y,
                    ellipse_rx = rx, ellipse_ry = ry, ellipse_colour = colour\<rparr>]\<rparr>)"
  by (simp add: gfxDrawEllipse_def INIT_JOB_pushed)

text \<open>
  Claim C3 asks that the global offset current at dispatch is added to both coordinates
  of every coordinate-bearing job. For an ellipse the code does this on the x axis
  only: an ellipse is queued, the offset is then set to \<open>(xo, yo)\<close>, and the screen
  update hands the renderer the x coordinate moved by \<open>xo\<close> and the y coordinate
  as it was queued.
\<close>

theorem ellipse_y_offset_not_applied:
  assumes "job_list s = []" and "job_alloc al" and "data_alloc al"
    and "is_gl_thread e" and "\<not> fps_hold e" and "offset_lock_ok e"
  shows "\<exists>s1 s2 s3.
           gfxDrawEllipse al x y rx ry colour s = Inr (0, s1)
         \<and> gfxDrawSetGlobalYOffset 0 yo (snd (gfxDrawSetGlobalXOffset 0 xo s1)) = (0, s2)
         \<and> gfxDrawUpdateScreen e s2 = Inr (0, s3)
         \<and> draw_trace s3 = draw_trace s @ [Ellipse (add_offset x xo) y rx ry colour]"
proof -
  let ?j = "DRAW_ELLIPSE \<lparr>ellipse_x = x, ellipse_y = y, ellipse_rx = rx, ellipse_ry = ry,
              ellipse_colour = colour\<rparr>"
  let ?s1 = "s\<lparr>job_list := job_list s @ [?j]\<rparr>"
  let ?s2 = "?s1\<lparr>global_offset_x := xo, global_offset_y := yo\<rparr>"
  let ?s3 = "emit (Ellipse (add_offset x xo) y rx ry colour) (?s2\<lparr>job_list := []\<rparr>)"
  have 1: "gfxDrawEllipse al x y rx ry colour s = Inr (0, ?s1)"
    using assms(2,3) by (rule gfxDrawEllipse_pushed)
  have 2: "gfxDrawSetGlobalYOffset 0 yo (snd (gfxDrawSetGlobalXOffset 0 xo ?s1)) = (0, ?s2)"
    by (simp add: gfxDrawSetGlobalYOffset_def gfxDrawSetGlobalXOffset_def)
  have q: "job_list ?s2 = [?j]" using assms(1) by simp
  have h: "vHandleDrawJob e ?j (?s2\<lparr>job_list := []\<rparr>) = Inr (0, ?s3)"
    using assms(6) by (simp add: vHandleDrawJob_def drawEllipse_def)
  have "drain_jobs e ?s3 = Inr (0, ?s3\<lparr>presented := Suc (presented ?s3)\<rparr>)"
    by (rule drain_jobs_Nil) simp
  then have "drain_jobs e ?s2 = Inr (0, ?s3\<lparr>presented := Suc (presented ?s3)\<rparr>)"
    using drain_jobs_Cons [OF q, of e] h by simp
  then have 3: "gfxDrawUpdateScreen e ?s2 = Inr (0, ?s3\<lparr>presented := Suc (presented ?s3)\<rparr>)"
    using assms(4,5) q by (simp add: gfxDrawUpdateScreen_def waitingDrawJobs_def)
  have 4: "draw_trace (?s3\<lparr>presented := Suc (presented ?s3)\<rparr>)
             = draw_trace s @ [Ellipse (add_offset x xo) y rx ry colour]"
    by simp
  from 1 2 3 4 show ?thesis by blast
qed

theorem ellipse_y_offset_not_applied_witness:
  "\<exists>s1 s2 s3.
     gfxDrawEllipse all_ok 100 100 10 20 0xFF0000 demo_state = Inr (0, s1)
   \<and> gfxDrawSetGlobalYOffset 0 5 (snd (gfxDrawSetGlobalXOffset 0 3 s1)) = (0, s2)
   \<and> gfxDrawUpdateScreen gl_env s2 = Inr (0, s3)
   \<and> draw_trace s3 = [Ellipse 103 100 10 20 0xFF0000]"
proof -
  have "add_offset 100 3 = 103"
    by (simp add: add_offset_def short_of_int_def int_of_short_def)
  then show ?thesis
    using ellipse_y_offset_not_applied [of demo_state all_ok gl_env 100 100 10 20 "0xFF0000" 5 3]
    by (simp add: demo_state_def all_ok_def gl_env_def)
qed


section \<open>Sprites\<close>

lemma find_map_update:
  assumes "\<And>i. iaddr (u i) = iaddr i"
  shows "find (\<lambda>i. iaddr i = a) (map (\<lambda>i. if iaddr i = a then u i else i) l)
           = map_option u (find (\<lambda>i. iaddr i = a) l)"
  by (induction l) (simp_all add: assms)

lemma image_at_update_image:
  assumes "\<And>i. iaddr (u i) = iaddr i" and "image_at h s = Inr i"
  shows "image_at h (update_image (iaddr i) u s) = Inr (u i)"
proof -
  from assms(2) obtain a where h: "h = Some a" "iaddr i = a"
    and f: "find (\<lambda>i. iaddr i = a) (loaded_images_list s) = Some i"
    by (cases h; cases "find (\<lambda>i. iaddr i = the h) (loaded_images_list s)")
       (auto simp: image_at_def dest: find_Some_iff [THEN iffD1])
  show ?thesis
    using f h by (simp add: image_at_def update_image_def find_map_update [OF assms(1)])
qed

text \<open>Beyond the count, a column or row is refused and nothing changes.\<close>

lemma sprite_beyond_count_refused:
  assumes "sint column < 0 \<or> sprite_cols sh < scast column
         \<or> sint row < 0 \<or> sprite_rows sh < scast row"
  shows "gfxDrawSprite al (Some sh) column row x y s = Inr (-1, s)"
  using assms by (auto simp: gfxDrawSprite_def)

text \<open>
  Claim C9 asks that a column outside \<open>0..C-1\<close> is refused with no state change.
  The code accepts the column \<open>C\<close> itself (and likewise the row \<open>R\<close>): the call
  returns 0, a cropped-image job whose origin lies \<open>C\<close> cells to the right is queued,
  and the image's reference count goes up by one.
\<close>

theorem sprite_column_past_the_end_accepted:
  assumes "0 \<le> sint column" and "scast column = sprite_cols sh"
    and "0 \<le> sint row" and "scast row \<le> sprite_rows sh"
    and "job_alloc al" and "data_alloc al"
    and "image_at (ss_image sh) s = Inr i"
  shows "\<exists>s' d. gfxDrawSprite al (Some sh) column row x y s = Inr (0, s')
           \<and> job_list s' = job_list s @ [DRAW_LOADED_IMAGE_CROP d]
           \<and> crop_c_x d = sprite_cols sh * (sprite_width sh + padding_x sh * 2) + padding_x sh
           \<and> image_at (ss_image sh) s' = Inr (i\<lparr>img_ref_count := img_ref_count i + 1\<rparr>)"
proof -
  have c: "\<not> (sint column < 0 \<or> sprite_cols sh < scast column)"
    using assms(1,2) by simp
  have r: "\<not> (sint row < 0 \<or> sprite_rows sh < scast row)"
    using assms(3,4) by (simp add: not_less)
  have img: "image_at (ss_image sh)
               (update_image (iaddr i) (\<lambda>i. i\<lparr>img_ref_count := img_ref_count i + 1\<rparr>) s)
             = Inr (i\<lparr>img_ref_count := img_ref_count i + 1\<rparr>)"
    by (rule image_at_update_image [OF _ assms(7)]) simp
  have upd: "update_image (iaddr i) u (s\<lparr>job_list := js\<rparr>)
             = (update_image (iaddr i) u s)\<lparr>job_list := js\<rparr>" for u js
    by (simp add: update_image_def)
  show ?thesis
    using c r assms(2,5,6,7) img
    by (simp add: gfxDrawSprite_def INIT_JOB_pushed upd del: disj_not1 not_less)
qed

theorem sprite_column_past_the_end_accepted_witness:
  "\<exists>s' d. gfxDrawSprite all_ok (Some demo_sheet) 4 0 0 0 demo_state = Inr (0, s')
     \<and> job_list s' = [DRAW_LOADED_IMAGE_CROP d] \<and> crop_c_x d = 64
     \<and> image_at (Some 1) s' = Inr (demo_image\<lparr>img_ref_count := 1\<rparr>)"
  using sprite_column_past_the_end_accepted [of 4 demo_sheet 0 all_ok demo_state demo_image 0 0]
    image_at_demo
  by (simp add: demo_sheet_def all_ok_def) (simp add: demo_state_def demo_image_def)


section \<open>Allocation failures in the draw requests\<close>

text \<open>
  Claim C2 asks that a draw request that fails on an allocation leaves the queue
  unchanged. When the copy of the string or of the points cannot be allocated,
  \<open>gfxDrawText\<close>, \<open>gfxDrawPoly\<close> and \<open>gfxDrawTriangle\<close> return -1, but the node
  that \<open>INIT_JOB\<close> linked stays at the tail of the queue with its zeroed payload.
\<close>

theorem payload_alloc_failure_leaves_job_queued:
  assumes "job_alloc al" and "data_alloc al" and "\<not> payload_alloc al" and "st \<noteq> []"
  shows "gfxDrawText al (Some st) x y colour s
           = Inr (-1, s\<lparr>job_list := job_list s @ [DRAW_TEXT zero_text]\<rparr>)
       \<and> gfxDrawPoly al points n colour s
           = Inr (-1, s\<lparr>job_list := job_list s @ [DRAW_POLY zero_poly]\<rparr>)
       \<and> gfxDrawTriangle al points colour s
           = Inr (-1, s\<lparr>job_list := job_list s @ [DRAW_TRIANGLE zero_triangle]\<rparr>)"
  using assms
  by (simp add: gfxDrawText_def gfxDrawPoly_def gfxDrawTriangle_def INIT_JOB_pushed)

theorem payload_alloc_failure_leaves_job_queued_witness:
  "gfxDrawText no_payload (Some ''hi'') 10 20 0xFF0000 demo_state
     = Inr (-1, demo_state\<lparr>job_list := [DRAW_TEXT zero_text]\<rparr>)
   \<and> gfxDrawPoly no_payload (Some []) 0 0xFF0000 demo_state
     = Inr (-1, demo_state\<lparr>job_list := [DRAW_POLY zero_poly]\<rparr>)
   \<and> gfxDrawTriangle no_payload (Some []) 0xFF0000 demo_state
     = Inr (-1, demo_state\<lparr>job_list := [DRAW_TRIANGLE zero_triangle]\<rparr>)"
proof -
  have q: "job_list demo_state = []" by (simp add: demo_state_def)
  show ?thesis
    using payload_alloc_failure_leaves_job_queued
            [of no_payload "''hi''" 10 20 "0xFF0000" demo_state "Some []" 0]
    by (simp add: no_payload_def q)
qed

text \<open>What the next screen update does with the text job that was left behind.\<close>

lemma dangling_text_job_dispatched:
  assumes "offset_lock_ok e"
  shows "vHandleDrawJob e (DRAW_TEXT zero_text) s
           = Inr (0, (emit (Text None (add_offset 0 (global_offset_x s))
                             (add_offset 0 (global_offset_y s)) 0 None) s)
                       \<lparr>font_list_ref_count := font_list_ref_count s - 1\<rparr>)"
  using assms
  by (simp add: vHandleDrawJob_def drawText_def gfxFontPutFont_def zero_text_def emit_def)

lemma dangling_triangle_job_faults:
  assumes "offset_lock_ok e"
  shows "vHandleDrawJob e (DRAW_TRIANGLE zero_triangle) s = Inl Null_deref"
  using assms by (simp add: vHandleDrawJob_def drawTriangle_def zero_triangle_def)

lemma node_alloc_failure_leaves_queue:
  assumes "\<not> job_alloc al" and "st \<noteq> []"
  shows "gfxDrawText al (Some st) x y colour s = Inr (-1, s)"
    and "gfxDrawPoly al points n colour s = Inr (-1, s)"
    and "gfxDrawTriangle al points colour s = Inr (-1, s)"
    and "gfxDrawClear al colour s = Inr (-1, s)"
  using assms
  by (simp_all add: gfxDrawText_def gfxDrawPoly_def gfxDrawTriangle_def gfxDrawClear_def
        INIT_JOB_no_node)

section \<open>Freeing a loaded image\<close>

lemma remove_image_not_found:
  assumes "distinct (map iaddr l)"
  shows "find (\<lambda>i. iaddr i = a) (remove_image a l) = None"
proof -
  have "a \<notin> iaddr ` set (remove_image a l)"
    using assms
  proof (induction l)
    case Nil
    then show ?case by (simp add: remove_image_def)
  next
    case (Cons i l)
    then show ?case
      by (cases "iaddr i = a") (auto simp: remove_image_def)
  qed
  then show ?thesis by (auto simp: find_None_iff)
qed

text \<open>
  Claim C6 asks that freeing a loaded image twice behaves as freeing it once. With a
  reference count of zero the first call frees the image and sets the caller's handle
  to \<open>NULL\<close>; a second call through that handle reads the count through
  \<open>NULL\<close>, and a second call through a copy of the old handle reads freed memory.
\<close>

theorem free_loaded_image_twice_faults:
  assumes "image_at (Some a) s = Inr i" and "img_ref_count i = 0"
    and "distinct (map iaddr (loaded_images_list s))"
  shows "\<exists>s1. gfxDrawFreeLoadedImage (Some a) s = Inr (0, None, s1)
           \<and> gfxDrawFreeLoadedImage None s1 = Inl Null_deref
           \<and> gfxDrawFreeLoadedImage (Some a) s1 = Inl Use_after_free
           \<and> freed s1 = freed s @ [a]"
proof -
  from assms(1) have f: "find (\<lambda>i. iaddr i = a) (loaded_images_list s) = Some i"
    by (auto simp: image_at_def split: option.splits)
  let ?s1 = "s\<lparr>loaded_images_list := remove_image a (loaded_images_list s),
               destroyed_textures := destroyed_textures s @ [img_tex i],
               freed := freed s @ [a]\<rparr>"
  have 1: "gfxDrawFreeLoadedImage (Some a) s = Inr (0, None, ?s1)"
    using assms(1,2) f by (simp add: gfxDrawFreeLoadedImage_def freeLoadedImage_def)
  have 2: "gfxDrawFreeLoadedImage None ?s1 = Inl Null_deref"
    by (simp add: gfxDrawFreeLoadedImage_def image_at_def)
  have 3: "gfxDrawFreeLoadedImage (Some a) ?s1 = Inl Use_after_free"
    using remove_image_not_found [OF assms(3)]
    by (simp add: gfxDrawFreeLoadedImage_def image_at_def)
  from 1 2 3 show ?thesis by simp
qed

theorem free_loaded_image_twice_faults_witness:
  "\<exists>s1. gfxDrawFreeLoadedImage (Some 1) demo_state = Inr (0, None, s1)
     \<and> gfxDrawFreeLoadedImage None s1 = Inl Null_deref
     \<and> gfxDrawFreeLoadedImage (Some 1) s1 = Inl Use_after_free
     \<and> freed s1 = [1]"
proof -
  have "img_ref_count demo_image = 0" by (simp add: demo_image_def)
  moreover have "distinct (map iaddr (loaded_images_list demo_state))"
    by (simp add: demo_state_def)
  moreover have "freed demo_state = []" by (simp add: demo_state_def)
  ultimately show ?thesis
    using free_loaded_image_twice_faults [OF image_at_demo] by simp
qed

text \<open>The case of the claim that holds: with references outstanding the call only sets
  the flag, and a second call changes nothing.\<close>

lemma free_loaded_image_pending_idempotent:
  assumes "image_at (Some a) s = Inr i" and "img_ref_count i \<noteq> 0"
  shows "\<exists>s1. gfxDrawFreeLoadedImage (Some a) s = Inr (0, Some a, s1)
           \<and> gfxDrawFreeLoadedImage (Some a) s1 = Inr (0, Some a, s1)"
proof -
  have a: "iaddr i = a" using image_at_addr [OF assms(1)] by simp
  let ?u = "\<lambda>i. i\<lparr>img_pending_free := 1\<rparr>"
  have i1: "image_at (Some a) (update_image a ?u s) = Inr (?u i)"
    using image_at_update_image [of ?u "Some a" s i] assms(1) a by simp
  have idem: "update_image a ?u (update_image a ?u s) = update_image a ?u s"
    by (simp add: update_image_def comp_def cong: map_cong)
  show ?thesis
    using assms i1 a idem by (simp add: gfxDrawFreeLoadedImage_def)
qed


section \<open>Spritesheet geometry\<close>

lemma unat_mult32:
  "unat a * unat b < 2 ^ 32 \<Longrightarrow> unat (a * b) = unat a * unat b" for a b :: "32 word"
  using unat_mult_lem [of a b] by simp

lemma unat_add32:
  "unat a + unat b < 2 ^ 32 \<Longrightarrow> unat (a + b) = unat a + unat b" for a b :: "32 word"
  using unat_add_lem [of a b] by simp

lemma unat_lt32: "unat a < 2 ^ 32" for a :: "32 word"
  using unsigned_less [of a] by simp

lemma unat_pred32: "c \<noteq> 0 \<Longrightarrow> unat (c - 1) = unat c - 1" for c :: "32 word"
  by (simp add: unat_minus_one)

text \<open>The cell size that \<open>gfxDrawSpritesheetSetDivisions\<close> computes along one axis,
  where the padding between the cells fits into the box.\<close>

lemma cell_size:
  fixes w p c :: "32 word"
  assumes "c \<noteq> 0" and "2 * unat p * (unat c - 1) \<le> unat w"
  shows "unat ((w - p * (c - 1) * 2) div c) = (unat w - 2 * unat p * (unat c - 1)) div unat c"
proof -
  have w: "unat w < 2 ^ 32" by (rule unat_lt32)
  have "unat p * unat (c - 1) < 2 ^ 32"
    using assms w by (simp add: unat_pred32)
  then have 1: "unat (p * (c - 1)) = unat p * (unat c - 1)"
    using assms(1) by (simp add: unat_mult32 unat_pred32)
  have "unat (p * (c - 1)) * unat (2 :: 32 word) < 2 ^ 32"
    using assms(2) w 1 by simp
  then have 2: "unat (p * (c - 1) * 2) = 2 * unat p * (unat c - 1)"
    using 1 by (simp add: unat_mult32)
  have "p * (c - 1) * 2 \<le> w"
    using assms(2) 2 by (simp add: word_le_nat_alt)
  then have "unat (w - p * (c - 1) * 2) = unat w - 2 * unat p * (unat c - 1)"
    using 2 by (simp add: unat_sub)
  then show ?thesis by (simp add: unat_div)
qed

lemma cells_fit:
  fixes w p c :: "32 word"
  assumes "c \<noteq> 0" and "2 * unat p * (unat c - 1) \<le> unat w"
  shows "unat c * unat ((w - p * (c - 1) * 2) div c) + 2 * unat p * (unat c - 1) \<le> unat w"
proof -
  define t where "t = 2 * unat p * (unat c - 1)"
  have "unat c * ((unat w - t) div unat c) \<le> unat w - t"
    by simp
  moreover have "t \<le> unat w" using assms(2) by (simp add: t_def)
  ultimately have "unat c * ((unat w - t) div unat c) + t \<le> unat w"
    by linarith
  then show ?thesis
    unfolding cell_size [OF assms] t_def .
qed

lemma SetDivisions_fields:
  assumes "gfxDrawSpritesheetSetDivisions sh cols rows = Inr sh'"
  shows "cols \<noteq> 0" and "rows \<noteq> 0"
    and "sprite_width sh' = (ss_width sh - padding_x sh * (cols - 1) * 2) div cols"
    and "sprite_height sh' = (ss_height sh - padding_y sh * (rows - 1) * 2) div rows"
    and "sprite_cols sh' = cols" and "sprite_rows sh' = rows"
    and "padding_x sh' = padding_x sh" and "padding_y sh' = padding_y sh"
    and "ss_image sh' = ss_image sh"
  using assms
  by (auto simp: gfxDrawSpritesheetSetDivisions_def Let_def split: if_splits)

lemma padded_divisions:
  "gfxDrawSpritesheetSetDivisions padded_box 4 4
     = Inr (padded_box\<lparr>sprite_width := 14, sprite_height := 14, sprite_cols := 4,
                      sprite_rows := 4\<rparr>)"
  by (simp add: gfxDrawSpritesheetSetDivisions_def padded_box_def)

text \<open>
  Claim C8, as amended. For a spritesheet with \<open>C\<close> columns, \<open>R\<close> rows, padding
  \<open>(px, py)\<close> and a box of size \<open>(W, H)\<close>, where the division is defined (\<open>C\<close>
  and \<open>R\<close> are not zero) and the padding between the cells fits into the box
  (\<open>2 px (C - 1) \<le> W\<close>, \<open>2 py (R - 1) \<le> H\<close>), the cell size set by
  \<open>gfxDrawSpritesheetSetDivisions\<close> is \<open>cell_w = (W - 2 px (C - 1)) div C\<close> and
  satisfies \<open>C cell_w + 2 px (C - 1) \<le> W\<close>, and likewise for the height: the cells
  and the padding between them fit into the box.
\<close>

theorem spritesheet_cells_fit:
  assumes dv: "gfxDrawSpritesheetSetDivisions sh cols rows = Inr sh'"
    and fx: "2 * unat (padding_x sh) * (unat cols - 1) \<le> unat (ss_width sh)"
    and fy: "2 * unat (padding_y sh) * (unat rows - 1) \<le> unat (ss_height sh)"
  shows "unat (sprite_width sh')
           = (unat (ss_width sh) - 2 * unat (padding_x sh) * (unat cols - 1)) div unat cols
       \<and> unat (sprite_height sh')
           = (unat (ss_height sh) - 2 * unat (padding_y sh) * (unat rows - 1)) div unat rows
       \<and> unat cols * unat (sprite_width sh') + 2 * unat (padding_x sh) * (unat cols - 1)
           \<le> unat (ss_width sh)
       \<and> unat rows * unat (sprite_height sh') + 2 * unat (padding_y sh) * (unat rows - 1)
           \<le> unat (ss_height sh)"
proof (intro conjI)
  note f = SetDivisions_fields [OF dv]
  show "unat (sprite_width sh')
          = (unat (ss_width sh) - 2 * unat (padding_x sh) * (unat cols - 1)) div unat cols"
    unfolding f(3) using f(1) fx by (rule cell_size)
  show "unat (sprite_height sh')
          = (unat (ss_height sh) - 2 * unat (padding_y sh) * (unat rows - 1)) div unat rows"
    unfolding f(4) using f(2) fy by (rule cell_size)
  show "unat cols * unat (sprite_width sh') + 2 * unat (padding_x sh) * (unat cols - 1)
          \<le> unat (ss_width sh)"
    unfolding f(3) using f(1) fx by (rule cells_fit)
  show "unat rows * unat (sprite_height sh') + 2 * unat (padding_y sh) * (unat rows - 1)
          \<le> unat (ss_height sh)"
    unfolding f(4) using f(2) fy by (rule cells_fit)
qed

theorem spritesheet_cells_fit_witness:
  "gfxDrawSpritesheetSetDivisions padded_box 4 4
     = Inr (padded_box\<lparr>sprite_width := 14, sprite_height := 14, sprite_cols := 4,
                      sprite_rows := 4\<rparr>)
   \<and> 2 * unat (padding_x padded_box) * (unat (4 :: uint) - 1) \<le> unat (ss_width padded_box)
   \<and> 2 * unat (padding_y padded_box) * (unat (4 :: uint) - 1) \<le> unat (ss_height padded_box)
   \<and> unat (14 :: uint) = (64 - 2 * 1 * (4 - 1)) div 4
   \<and> 4 * unat (14 :: uint) + 2 * 1 * (4 - 1) \<le> (64 :: nat)"
proof -
  have fx: "2 * unat (padding_x padded_box) * (unat (4 :: uint) - 1) \<le> unat (ss_width padded_box)"
    and fy: "2 * unat (padding_y padded_box) * (unat (4 :: uint) - 1) \<le> unat (ss_height padded_box)"
    by (simp_all add: padded_box_def)
  show ?thesis
    using spritesheet_cells_fit [OF padded_divisions fx fy] padded_divisions fx fy
    by (simp add: padded_box_def)
qed

text \<open>
  Claim C8 as stated fails: in a box of 10 by 10 pixels with padding 3 and two columns
  and rows the cell is 2 pixels wide, so \<open>C cell_w + 2 px C = 16\<close> exceeds the width,
  and the crop origin of the cell (1, 1) is at 11, outside the box.
\<close>

theorem spritesheet_cells_overrun_counterexample:
  "gfxDrawSpritesheetSetDivisions tight_box 2 2
     = Inr (tight_box\<lparr>sprite_width := 2, sprite_height := 2, sprite_cols := 2,
                     sprite_rows := 2\<rparr>)
   \<and> \<not> (2 * unat (2 :: 32 word) + 2 * unat (padding_x tight_box) * 2
          \<le> unat (ss_width tight_box))
   \<and> map_sum id (\<lambda>(r, s). (r, job_list s))
        (gfxDrawSprite all_ok
           (Some (tight_box\<lparr>sprite_width := 2, sprite_height := 2, sprite_cols := 2,
                            sprite_rows := 2\<rparr>)) 1 1 0 0 demo_state)
      = Inr (0, [DRAW_LOADED_IMAGE_CROP \<lparr>crop_image = Some 1, crop_x = 0, crop_y = 0,
                   crop_c_x = 11, crop_c_y = 11, crop_c_w = 2, crop_c_h = 2\<rparr>])
   \<and> \<not> ((11 :: nat) < unat (ss_width tight_box))"
  by (simp add: gfxDrawSpritesheetSetDivisions_def tight_box_def gfxDrawSprite_def
        INIT_JOB_pushed all_ok_def image_at_def demo_state_def demo_image_def
        update_image_def int_of_short_def set_job_def)


text \<open>
  The crop origin of \<open>gfxDrawSprite\<close> is no part of the statement above. The function
  never reads the position of the box, which \<open>gfxDrawAnimationDrawFrame\<close> adds to the
  origin of the same cell, and it puts one padding before the first cell, which
  \<open>gfxDrawSpritesheetSetDivisions\<close> and \<open>gfxDrawAnimationDrawFrame\<close> do not have.
\<close>

lemma sprite_origin_ignores_box_position:
  "gfxDrawSprite al (Some (sh\<lparr>ss_x := ox, ss_y := oy\<rparr>)) column row x y s
     = gfxDrawSprite al (Some sh) column row x y s"
  by (simp add: gfxDrawSprite_def split: sum.splits option.splits)

text \<open>For a box at (32, 32) of 2 by 2 cells of 16 pixels, \<open>gfxDrawSprite\<close> crops the
  cell (1, 1) at (16, 16), outside the box, and \<open>gfxDrawAnimationDrawFrame\<close> crops it
  at (48, 48).\<close>

lemma sprite_and_frame_origins_differ:
  "gfxDrawSpritesheetSetDivisions corner_box 2 2 = Inr corner_box"
  "map_sum id (\<lambda>(r, s). (r, job_list s))
     (gfxDrawSprite all_ok (Some corner_box) 1 1 0 0 demo_state)
     = Inr (0, [DRAW_LOADED_IMAGE_CROP \<lparr>crop_image = Some 1, crop_x = 0, crop_y = 0,
                  crop_c_x = 16, crop_c_y = 16, crop_c_w = 16, crop_c_h = 16\<rparr>])"
  "map_sum id (\<lambda>(r, a, s). (r, job_list s))
     (gfxDrawAnimationDrawFrame all_ok (Some corner_instance) 0 0 0 demo_state)
     = Inr (0, [DRAW_LOADED_IMAGE_CROP \<lparr>crop_image = Some 1, crop_x = 0, crop_y = 0,
                  crop_c_x = 48, crop_c_y = 48, crop_c_w = 16, crop_c_h = 16\<rparr>])"
  by (simp_all add: gfxDrawSpritesheetSetDivisions_def corner_box_def gfxDrawSprite_def
        gfxDrawAnimationDrawFrame_def advance_frame_def corner_instance_def
        corner_animation_def corner_sequence_def is_horizontal_def is_positive_def
        INIT_JOB_pushed all_ok_def image_at_def demo_state_def demo_image_def
        update_image_def int_of_short_def set_job_def Let_def)

text \<open>For a box of 62 pixels that four cells of 14 pixels and the padding of one pixel
  between them fill exactly, \<open>gfxDrawSprite\<close> crops the last cell from 49 to 63.\<close>

lemma sprite_leading_padding_overruns:
  "gfxDrawSpritesheetSetDivisions filled_box 4 4
     = Inr (filled_box\<lparr>sprite_width := 14, sprite_height := 14, sprite_cols := 4,
                      sprite_rows := 4\<rparr>)"
  "map_sum id (\<lambda>(r, s). (r, job_list s))
     (gfxDrawSprite all_ok
        (Some (filled_box\<lparr>sprite_width := 14, sprite_height := 14, sprite_cols := 4,
                          sprite_rows := 4\<rparr>)) 3 3 0 0 demo_state)
     = Inr (0, [DRAW_LOADED_IMAGE_CROP \<lparr>crop_image = Some 1, crop_x = 0, crop_y = 0,
                  crop_c_x = 49, crop_c_y = 49, crop_c_w = 14, crop_c_h = 14\<rparr>])"
  "\<not> (49 + 14 \<le> unat (ss_width filled_box))"
  by (simp_all add: gfxDrawSpritesheetSetDivisions_def filled_box_def gfxDrawSprite_def
        INIT_JOB_pushed all_ok_def image_at_def demo_state_def demo_image_def
        update_image_def int_of_short_def set_job_def)


section \<open>Centred text\<close>

lemma sdiv_two: "k sdiv 2 = half_truncated k" for k :: int
  by (simp add: signed_divide_int_def half_truncated_def sgn_if)

lemma ucast_of_int_32_16: "(ucast (word_of_int k :: 32 word) :: 16 word) = word_of_int k"
  by (rule ucast_down_wi) (simp add: is_down)

lemma centred_coordinate:
  "short_of_int (int_of_short v - int_div w 2) = word_of_int (sint v - half_truncated (sint w))"
proof -
  have "int_of_short v - int_div w 2 = (word_of_int (sint v - half_truncated (sint w)) :: 32 word)"
    by (simp add: int_of_short_def int_div_def sdiv_two)
  then show ?thesis
    by (simp only: short_of_int_def ucast_of_int_32_16)
qed


lemma gfxFontGetCurFont_frame:
  assumes "gfxFontGetCurFont s = Inr (f, s1)"
  shows "job_list s1 = job_list s" and "draw_trace s1 = draw_trace s"
    and "global_offset_x s1 = global_offset_x s" and "global_offset_y s1 = global_offset_y s"
    and "loaded_images_list s1 = loaded_images_list s"
  using assms
  by (auto simp: gfxFontGetCurFont_def update_font_def split: option.splits)

lemma gfxGetTextSize_frame:
  assumes "gfxGetTextSize te str s = Inr (r, s1)"
  shows "job_list s1 = job_list s"
proof (cases str)
  case None
  with assms show ?thesis by (simp add: gfxGetTextSize_def)
next
  case (Some st)
  with assms obtain f sa where g: "gfxFontGetCurFont s = Inr (f, sa)"
    and p: "gfxFontPutFont f sa = Inr s1"
    by (auto simp: gfxGetTextSize_def getTextSize_def split: sum.splits option.splits)
  show ?thesis
    using gfxFontGetCurFont_frame(1) [OF g] gfxFontPutFont_frame [OF p] by simp
qed

lemma demo_text_size:
  "gfxGetTextSize unrendered (Some ''hi'') demo_state = Inr (None, demo_state)"
  "gfxGetTextSize measured (Some ''hi'') demo_state = Inr (Some (11, 7), demo_state)"
  by (simp_all add: gfxGetTextSize_def getTextSize_def gfxFontGetCurFont_def font_at_def
        update_font_def gfxFontPutFont_def put_font_def demo_state_def demo_font_def
        unrendered_def measured_def)

text \<open>
  Claim C10. \<open>gfxDrawCenteredText\<close> does what the specification's reading says:
  the string is measured with \<open>gfxGetTextSize\<close> and \<open>gfxDrawText\<close> is called at
  \<open>x - w/2\<close>, \<open>y - h/2\<close> with truncating halves; and if measuring fails, the
  function returns -1 and the queue is as it was.
\<close>

theorem centered_text_refines_spec:
  "gfxDrawCenteredText te al str x y colour s = centered_text_spec te al str x y colour s
   \<and> (gfxGetTextSize te str s = Inr (None, s1)
        \<longrightarrow> gfxDrawCenteredText te al str x y colour s = Inr (-1, s1)
            \<and> job_list s1 = job_list s)"
proof (intro conjI impI)
  show "gfxDrawCenteredText te al str x y colour s = centered_text_spec te al str x y colour s"
    by (simp add: gfxDrawCenteredText_def centered_text_spec_def centred_coordinate
             split: sum.splits option.splits prod.splits)
next
  assume f: "gfxGetTextSize te str s = Inr (None, s1)"
  then show "gfxDrawCenteredText te al str x y colour s = Inr (-1, s1)"
    by (simp add: gfxDrawCenteredText_def)
  from f show "job_list s1 = job_list s"
    by (rule gfxGetTextSize_frame)
qed

theorem centered_text_refines_spec_witness:
  "gfxDrawCenteredText unrendered all_ok (Some ''hi'') 100 50 0xFF0000 demo_state
     = Inr (-1, demo_state)
   \<and> job_list demo_state = []
   \<and> gfxDrawCenteredText measured all_ok (Some ''hi'') 100 50 0xFF0000 demo_state
     = gfxDrawText all_ok (Some ''hi'') 95 47 0xFF0000 demo_state"
proof -
  have 1: "gfxDrawCenteredText unrendered all_ok (Some ''hi'') 100 50 0xFF0000 demo_state
             = Inr (-1, demo_state)"
    using centered_text_refines_spec
            [of unrendered all_ok "Some ''hi''" 100 50 "0xFF0000" demo_state demo_state]
      demo_text_size(1)
    by blast
  have 2: "job_list demo_state = []"
    by (simp add: demo_state_def)
  have "centered_text_spec measured all_ok (Some ''hi'') 100 50 0xFF0000 demo_state
          = gfxDrawText all_ok (Some ''hi'') 95 47 0xFF0000 demo_state"
    by (simp add: centered_text_spec_def demo_text_size half_truncated_def)
  then have 3: "gfxDrawCenteredText measured all_ok (Some ''hi'') 100 50 0xFF0000 demo_state
                  = gfxDrawText all_ok (Some ''hi'') 95 47 0xFF0000 demo_state"
    using centered_text_refines_spec
            [of measured all_ok "Some ''hi''" 100 50 "0xFF0000" demo_state demo_state]
    by simp
  from 1 2 3 show ?thesis by simp
qed


section \<open>Releasing and resizing fonts\<close>

lemma put_font_nodes_at:
  assumes "list_all (\<lambda>g. \<not> m g \<and> faddr g \<notin> set fr) pre" and "m c" and "faddr c \<notin> set fr"
  shows "put_font_nodes m fr (pre @ c # post) =
           (if font_ref_count c - 1 = 0 \<and> font_pending_free c \<noteq> 0
            then Inr (pre @ (if post \<noteq> [] then post
                             else [c\<lparr>font_ref_count := font_ref_count c - 1\<rparr>]),
                      Some (c\<lparr>font_ref_count := font_ref_count c - 1\<rparr>))
            else Inr (pre @ c\<lparr>font_ref_count := font_ref_count c - 1\<rparr> # post, None))"
  using assms by (induction pre) (auto simp: Let_def)

lemma find_font_at:
  assumes "list_all (\<lambda>g. faddr g \<noteq> faddr c) pre"
  shows "find (\<lambda>f. faddr f = faddr c) (pre @ c # post) = Some c"
  using assms by (induction pre) auto

lemma map_update_at:
  assumes "list_all (\<lambda>g. faddr g \<noteq> faddr c) pre" and "list_all (\<lambda>g. faddr g \<noteq> faddr c) post"
  shows "map (\<lambda>f. if faddr f = faddr c then u f else f) (pre @ c # post) = pre @ u c # post"
proof -
  have "map (\<lambda>f. if faddr f = faddr c then u f else f) l = l"
    if "list_all (\<lambda>g. faddr g \<noteq> faddr c) l" for l
    using that by (induction l) auto
  with assms show ?thesis by simp
qed


lemma distinct_addr_split:
  assumes "distinct (map faddr (pre @ c # post))"
  shows "list_all (\<lambda>g. faddr g \<noteq> faddr c) pre" and "list_all (\<lambda>g. faddr g \<noteq> faddr c) post"
  using assms by (auto simp: list_all_iff) (metis image_eqI)+

lemma distinct_font_split:
  assumes "distinct (map font_font (pre @ c # post))"
  shows "list_all (\<lambda>g. font_font g \<noteq> font_font c) pre"
  using assms by (auto simp: list_all_iff) (metis image_eqI)

lemma gfxFontPutFont_some:
  "f \<noteq> None \<Longrightarrow> gfxFontPutFont f s = put_font (\<lambda>g. font_font g = f) s"
  by (cases f) (simp_all add: gfxFontPutFont_def)

lemma held_is_acquired: "gfxFontGetCurFont demo_state = Inr (Some 11, held_state)"
  by (simp add: gfxFontGetCurFont_def font_at_def update_font_def demo_state_def
        demo_font_def held_state_def held_font_def)

lemma load_resized: "loadFont fe_resize (font_name held_font) 20 = Some resized_font"
  by (simp add: loadFont_def getFontPath_def fe_resize_def held_font_def demo_font_def
        resized_font_def)

lemma stale_state_reached:
  "gfxFontInit fe_init ''IBMPlexSans-Bold.ttf'' 15 blank_state
     = (0, blank_state\<lparr>font_list := [demo_font], cur_default_font := Some 2\<rparr>)"
  "gfxFontGetCurFont (blank_state\<lparr>font_list := [demo_font], cur_default_font := Some 2\<rparr>)
     = Inr (Some 11, blank_state\<lparr>font_list := [held_font], cur_default_font := Some 2\<rparr>)"
  "gfxFontSetSize fe_unopened 20
     (blank_state\<lparr>font_list := [held_font], cur_default_font := Some 2\<rparr>)
     = Inr (-1, stale_state)"
  by (simp_all add: gfxFontInit_def loadFont_def getFontPath_def fe_init_def blank_state_def
        demo_font_def gfxFontGetCurFont_def font_at_def update_font_def held_font_def
        gfxFontSetSize_def appendFont_def fe_unopened_def stale_state_def stale_font_def)

text \<open>
  Claim C7. The current default font is held (its reference count is not zero) and
  \<open>gfxFontSetSize\<close> is called with another size, which the Font Provider can open.
  Then nothing is closed by the call: the entry is marked pending, a new entry of the
  new size is linked behind the last one and becomes the default. The old backend font
  is closed by \<open>gfxFontPutFont\<close> exactly when the reference given back was the last
  one; the old entry is then unlinked, and otherwise only its count goes down.
\<close>

theorem set_size_defers_close:
  assumes fl: "font_list s = pre @ cur # post"
    and cd: "cur_default_font s = Some (faddr cur)"
    and da: "distinct (map faddr (font_list s))"
    and df: "distinct (map font_font (font_list s))"
    and live: "list_all (\<lambda>g. faddr g \<notin> set (freed s)) (font_list s)"
    and fnt: "font_font cur \<noteq> None"
    and rc: "font_ref_count cur \<noteq> 0"
    and sz: "ucast (font_size cur) \<noteq> new_size"
    and ld: "loadFont fe (font_name cur) new_size = Some n"
    and fa: "faddr n \<notin> set (map faddr (font_list s))"
  shows "\<exists>s1 s2.
           gfxFontSetSize fe new_size s = Inr (0, s1)
         \<and> closed_fonts s1 = closed_fonts s
         \<and> font_list s1 = pre @ cur\<lparr>font_pending_free := 1\<rparr> # post @ [n]
         \<and> cur_default_font s1 = Some (faddr n)
         \<and> faddr n \<noteq> faddr cur
         \<and> font_size n = ucast new_size
         \<and> gfxFontPutFont (font_font cur) s1 = Inr s2
         \<and> cur_default_font s2 = Some (faddr n)
         \<and> (if font_ref_count cur = 1
             then closed_fonts s2 = closed_fonts s @ [font_font cur]
                \<and> font_list s2 = pre @ post @ [n]
                \<and> faddr cur \<in> set (freed s2)
             else closed_fonts s2 = closed_fonts s
                \<and> font_list s2 = pre @ cur\<lparr>font_pending_free := 1,
                                       font_ref_count := font_ref_count cur - 1\<rparr> # post @ [n]
                \<and> faddr cur \<notin> set (freed s2))"
proof -
  let ?a = "faddr cur"
  let ?cur' = "cur\<lparr>font_pending_free := 1\<rparr>"
  define sa where "sa = update_font ?a (\<lambda>f. f\<lparr>font_pending_free := 1\<rparr>) s"
  define s1 where "s1 = sa\<lparr>font_list := font_list sa @ [n],
                            freed := removeAll (faddr n) (freed sa),
                            cur_default_font := Some (faddr n)\<rparr>"
  have pa: "list_all (\<lambda>g. faddr g \<noteq> ?a) pre" "list_all (\<lambda>g. faddr g \<noteq> ?a) post"
    using distinct_addr_split [of pre cur post] da fl by simp_all
  have pf: "list_all (\<lambda>g. font_font g \<noteq> font_font cur) pre"
    using distinct_font_split [of pre cur post] df fl by simp
  have nf: "?a \<notin> set (freed s)"
    using live fl by simp
  have at: "font_at ?a s = Some cur"
    using nf fl by (simp add: font_at_def find_font_at [OF pa(1)])
  have la: "font_list sa = pre @ ?cur' # post"
    using fl map_update_at [OF pa, of "\<lambda>f. f\<lparr>font_pending_free := 1\<rparr>"]
    by (simp add: sa_def update_font_def)
  have fsa: "freed sa = freed s" "closed_fonts sa = closed_fonts s"
    by (simp_all add: sa_def update_font_def)
  have nodangling: "\<not> list_ex (\<lambda>f. faddr f \<in> set (freed sa)) (font_list sa)"
    using live fl by (simp add: la fsa list_ex_iff list_all_iff)
  have ap: "appendFont fe (font_name cur) new_size sa
              = Inr (Some n, sa\<lparr>font_list := font_list sa @ [n],
                                freed := removeAll (faddr n) (freed sa)\<rparr>)"
    using nodangling ld by (simp add: appendFont_def)
  have 1: "gfxFontSetSize fe new_size s = Inr (0, s1)"
    using cd at sz rc ap by (simp add: gfxFontSetSize_def Let_def sa_def [symmetric] s1_def)
  have l1: "font_list s1 = pre @ ?cur' # post @ [n]"
    by (simp add: s1_def la)
  have c1: "closed_fonts s1 = closed_fonts s"
    by (simp add: s1_def fsa)
  have f1: "freed s1 = removeAll (faddr n) (freed s)"
    by (simp add: s1_def fsa)
  have d1: "cur_default_font s1 = Some (faddr n)"
    by (simp add: s1_def)
  have na: "faddr n \<noteq> ?a"
    using fa fl by auto
  have nsz: "font_size n = ucast new_size"
    using ld by (auto simp: loadFont_def split: option.splits)
  let ?m = "\<lambda>f. font_font f = font_font cur"
  have pre_ok: "list_all (\<lambda>g. \<not> ?m g \<and> faddr g \<notin> set (freed s1)) pre"
    using pf live fl by (simp add: f1 list_all_iff)
  have cur_ok: "?m ?cur'" "faddr ?cur' \<notin> set (freed s1)"
    using nf by (simp_all add: f1)
  note nodes = put_font_nodes_at [of ?m "freed s1" pre ?cur' "post @ [n]", OF pre_ok cur_ok]
  have put: "gfxFontPutFont (font_font cur) s1 = put_font ?m s1"
    by (rule gfxFontPutFont_some [OF fnt])
  show ?thesis
  proof (cases "font_ref_count cur = 1")
    case True
    define d where "d = ?cur'\<lparr>font_ref_count := font_ref_count ?cur' - 1\<rparr>"
    define s2 where "s2 = gfxFontDeleteFont d (s1\<lparr>font_list := pre @ post @ [n]\<rparr>)"
    have "put_font_nodes ?m (freed s1) (font_list s1) = Inr (pre @ post @ [n], Some d)"
      unfolding l1 nodes using True by (simp add: d_def)
    then have 2: "gfxFontPutFont (font_font cur) s1 = Inr s2"
      by (simp add: put put_font_def s2_def)
    have 3: "closed_fonts s2 = closed_fonts s @ [font_font cur]"
      "font_list s2 = pre @ post @ [n]" "?a \<in> set (freed s2)"
      "cur_default_font s2 = Some (faddr n)"
      by (simp_all add: s2_def gfxFontDeleteFont_def c1 d1 d_def)
    from 1 2 3 l1 c1 d1 na nsz True show ?thesis
      by (intro exI [of _ s1] exI [of _ s2]) (simp only: if_True simp_thms)
  next
    case False
    then have nz: "font_ref_count cur - 1 \<noteq> 0" by simp
    define c2 where "c2 = cur\<lparr>font_pending_free := 1, font_ref_count := font_ref_count cur - 1\<rparr>"
    define s2 where "s2 = s1\<lparr>font_list := pre @ c2 # post @ [n]\<rparr>"
    have "put_font_nodes ?m (freed s1) (font_list s1) = Inr (pre @ c2 # post @ [n], None)"
      unfolding l1 nodes using nz by (simp add: c2_def)
    then have 2: "gfxFontPutFont (font_font cur) s1 = Inr s2"
      by (simp add: put put_font_def s2_def)
    have 3: "closed_fonts s2 = closed_fonts s" "?a \<notin> set (freed s2)"
      "cur_default_font s2 = Some (faddr n)"
      "font_list s2 = pre @ cur\<lparr>font_pending_free := 1,
                               font_ref_count := font_ref_count cur - 1\<rparr> # post @ [n]"
      using nf by (simp_all add: s2_def c1 d1 f1 c2_def)
    from 1 2 3 l1 c1 d1 na nsz False show ?thesis
      by (intro exI [of _ s1] exI [of _ s2]) (simp only: if_False simp_thms)
  qed
qed


theorem set_size_defers_close_witness:
  "\<exists>s1 s2. gfxFontSetSize fe_resize 20 held_state = Inr (0, s1)
     \<and> closed_fonts s1 = []
     \<and> font_list s1 = [held_font\<lparr>font_pending_free := 1\<rparr>, resized_font]
     \<and> cur_default_font s1 = Some 3
     \<and> gfxFontPutFont (Some 11) s1 = Inr s2
     \<and> cur_default_font s2 = Some 3
     \<and> closed_fonts s2 = [Some 11]
     \<and> font_list s2 = [resized_font]"
proof -
  have h: "font_list held_state = [] @ held_font # []" "cur_default_font held_state = Some 2"
    "closed_fonts held_state = []" "freed held_state = []"
    by (simp_all add: held_state_def demo_state_def)
  have f: "faddr held_font = 2" "font_font held_font = Some 11" "font_ref_count held_font = 1"
    "font_size held_font = 15" "faddr resized_font = 3"
    by (simp_all add: held_font_def demo_font_def resized_font_def)
  show ?thesis
    using set_size_defers_close [of held_state "[]" held_font "[]" 20 fe_resize resized_font,
            OF h(1) _ _ _ _ _ _ _ load_resized]
    by (simp add: h f) blast
qed


text \<open>
  Claim C5 asks that a release which brings the count of a pending entry to zero
  unlinks the entry and releases its backend resources. \<open>gfxFontPutFont\<close> closes the
  font and frees the node, but unlinks it only \<open>if (iterator->next)\<close>: when the entry
  is the last of the list its predecessor keeps pointing to the freed node, and the
  next walk over the list reads freed memory; \<open>gfxFontPutFontHandle\<close> does the same.
  The instance below reaches such a state from \<open>gfxFontInit\<close>, by a
  \<open>gfxFontSetSize\<close> whose new size cannot be opened.
\<close>

theorem font_release_at_tail_stays_linked:
  assumes fl: "font_list s = pre @ [f]"
    and pre: "list_all (\<lambda>g. font_font g \<noteq> font_font f \<and> faddr g \<noteq> faddr f
                          \<and> faddr g \<notin> set (freed s)) pre"
    and nf: "faddr f \<notin> set (freed s)"
    and fnt: "font_font f \<noteq> None"
    and rc: "font_ref_count f = 1"
    and pend: "font_pending_free f \<noteq> 0"
  shows "\<exists>s'. gfxFontPutFont (font_font f) s = Inr s'
           \<and> gfxFontPutFontHandle (Some (faddr f)) s = Inr s'
           \<and> closed_fonts s' = closed_fonts s @ [font_font f]
           \<and> freed s' = freed s @ [faddr f]
           \<and> map faddr (font_list s') = map faddr (font_list s)
           \<and> gfxFontLoadFont fe default_size fname sz s' = Inl Use_after_free"
proof -
  let ?m = "\<lambda>g. font_font g = font_font f"
  let ?h = "\<lambda>g. faddr g = faddr f"
  define d where "d = f\<lparr>font_ref_count := font_ref_count f - 1\<rparr>"
  define s' where "s' = gfxFontDeleteFont d (s\<lparr>font_list := pre @ [d]\<rparr>)"
  have pre_m: "list_all (\<lambda>g. \<not> ?m g \<and> faddr g \<notin> set (freed s)) pre"
    and pre_h: "list_all (\<lambda>g. \<not> ?h g \<and> faddr g \<notin> set (freed s)) pre"
    using pre by (simp_all add: list_all_iff)
  have "put_font_nodes ?m (freed s) (font_list s) = Inr (pre @ [d], Some d)"
    unfolding fl put_font_nodes_at [of ?m "freed s" pre f "[]", OF pre_m refl nf]
    using rc pend by (simp add: d_def)
  then have 1: "gfxFontPutFont (font_font f) s = Inr s'"
    by (simp add: gfxFontPutFont_some [OF fnt] put_font_def s'_def)
  have "put_font_nodes ?h (freed s) (font_list s) = Inr (pre @ [d], Some d)"
    unfolding fl put_font_nodes_at [of ?h "freed s" pre f "[]", OF pre_h refl nf]
    using rc pend by (simp add: d_def)
  then have 5: "gfxFontPutFontHandle (Some (faddr f)) s = Inr s'"
    by (simp add: gfxFontPutFontHandle_def put_font_def s'_def)
  have 2: "closed_fonts s' = closed_fonts s @ [font_font f]"
    "freed s' = freed s @ [faddr f]" "font_list s' = pre @ [d]"
    by (simp_all add: s'_def gfxFontDeleteFont_def d_def)
  have 3: "map faddr (font_list s') = map faddr (font_list s)"
    by (simp add: 2 fl d_def)
  have "list_ex (\<lambda>g. faddr g \<in> set (freed s')) (font_list s')"
    by (simp add: 2 d_def)
  then have 4: "gfxFontLoadFont fe default_size fname sz s' = Inl Use_after_free"
    by (simp add: gfxFontLoadFont_def appendFont_def)
  from 1 5 2 3 4 show ?thesis
    by (intro exI [of _ s'] conjI)
qed

theorem font_release_at_tail_stays_linked_witness:
  "\<exists>s0 s1 s3.
     gfxFontInit fe_init ''IBMPlexSans-Bold.ttf'' 15 blank_state = (0, s0)
   \<and> gfxFontGetCurFont s0 = Inr (Some 11, s1)
   \<and> gfxFontSetSize fe_unopened 20 s1 = Inr (-1, stale_state)
   \<and> gfxFontPutFont (Some 11) stale_state = Inr s3
   \<and> gfxFontPutFontHandle (Some 2) stale_state = Inr s3
   \<and> closed_fonts s3 = [Some 11]
   \<and> freed s3 = [2]
   \<and> map faddr (font_list s3) = [2]
   \<and> gfxFontLoadFont fe_resize 15 ''IBMPlexSans-Bold.ttf'' 20 s3 = Inl Use_after_free"
proof -
  have h: "font_list stale_state = [] @ [stale_font]" "freed stale_state = []"
    "closed_fonts stale_state = []"
    by (simp_all add: stale_state_def blank_state_def)
  have f: "faddr stale_font = 2" "font_font stale_font = Some 11"
    "font_ref_count stale_font = 1" "font_pending_free stale_font = 1"
    by (simp_all add: stale_font_def demo_font_def)
  have "\<exists>s3. gfxFontPutFont (Some 11) stale_state = Inr s3
     \<and> gfxFontPutFontHandle (Some 2) stale_state = Inr s3
     \<and> closed_fonts s3 = [Some 11] \<and> freed s3 = [2] \<and> map faddr (font_list s3) = [2]
     \<and> gfxFontLoadFont fe_resize 15 ''IBMPlexSans-Bold.ttf'' 20 s3 = Inl Use_after_free"
    using font_release_at_tail_stays_linked
            [of stale_state "[]" stale_font fe_resize 15 "''IBMPlexSans-Bold.ttf''" 20, OF h(1)]
    by (simp add: h f)
  with stale_state_reached show ?thesis
    by (elim exE conjE, intro exI conjI) assumption+
qed


text \<open>The counting itself is as claim C5 has it: an acquire adds one reference, and a
  release that is not the last of a pending entry takes one away and nothing else.\<close>

lemma font_acquire_counts:
  assumes "font_list s = pre @ f # post" and "cur_default_font s = Some (faddr f)"
    and "distinct (map faddr (font_list s))" and "faddr f \<notin> set (freed s)"
  shows "gfxFontGetCurFont s
           = Inr (font_font f,
                  s\<lparr>font_list := pre @ f\<lparr>font_ref_count := font_ref_count f + 1\<rparr> # post\<rparr>)"
    and "gfxFontGetCurFontHandle s
           = Inr (Some (faddr f),
                  s\<lparr>font_list := pre @ f\<lparr>font_ref_count := font_ref_count f + 1\<rparr> # post\<rparr>)"
proof -
  have pa: "list_all (\<lambda>g. faddr g \<noteq> faddr f) pre" "list_all (\<lambda>g. faddr g \<noteq> faddr f) post"
    using distinct_addr_split [of pre f post] assms(1,3) by simp_all
  have at: "font_at (faddr f) s = Some f"
    using assms(1,4) by (simp add: font_at_def find_font_at [OF pa(1)])
  have up: "update_font (faddr f) (\<lambda>f. f\<lparr>font_ref_count := font_ref_count f + 1\<rparr>) s
              = s\<lparr>font_list := pre @ f\<lparr>font_ref_count := font_ref_count f + 1\<rparr> # post\<rparr>"
    using assms(1) map_update_at [OF pa, of "\<lambda>f. f\<lparr>font_ref_count := font_ref_count f + 1\<rparr>"]
    by (simp add: update_font_def)
  show "gfxFontGetCurFont s
           = Inr (font_font f,
                  s\<lparr>font_list := pre @ f\<lparr>font_ref_count := font_ref_count f + 1\<rparr> # post\<rparr>)"
    using assms(2) at up by (simp add: gfxFontGetCurFont_def)
  show "gfxFontGetCurFontHandle s
           = Inr (Some (faddr f),
                  s\<lparr>font_list := pre @ f\<lparr>font_ref_count := font_ref_count f + 1\<rparr> # post\<rparr>)"
    using assms(2) at up by (simp add: gfxFontGetCurFontHandle_def)
qed

lemma font_release_counts:
  assumes "font_list s = pre @ f # post"
    and "list_all (\<lambda>g. font_font g \<noteq> font_font f \<and> faddr g \<notin> set (freed s)) pre"
    and "faddr f \<notin> set (freed s)" and "font_font f \<noteq> None"
    and "font_ref_count f \<noteq> 1 \<or> font_pending_free f = 0"
  shows "gfxFontPutFont (font_font f) s
           = Inr (s\<lparr>font_list := pre @ f\<lparr>font_ref_count := font_ref_count f - 1\<rparr> # post\<rparr>)"
proof -
  let ?m = "\<lambda>g. font_font g = font_font f"
  have pre_m: "list_all (\<lambda>g. \<not> ?m g \<and> faddr g \<notin> set (freed s)) pre"
    using assms(2) by (simp add: list_all_iff)
  have "\<not> (font_ref_count f - 1 = 0 \<and> font_pending_free f \<noteq> 0)"
    using assms(5) by auto
  then have "put_font_nodes ?m (freed s) (font_list s)
          = Inr (pre @ f\<lparr>font_ref_count := font_ref_count f - 1\<rparr> # post, None)"
    unfolding assms(1) put_font_nodes_at [of ?m "freed s" pre f post, OF pre_m refl assms(3)]
    by simp
  then show ?thesis
    by (simp add: gfxFontPutFont_some [OF assms(4)] put_font_def)
qed

text \<open>The image registry releases as claim C5 has it: the release takes one reference
  away, and the image is unlinked and its texture destroyed exactly when it is pending
  and the reference was the last one.\<close>

lemma image_release:
  assumes at: "image_at h s = Inr i"
    and d: "distinct (map iaddr (loaded_images_list s))"
  shows "\<exists>s'. vPutLoadedImage h s = Inr s'
           \<and> (if img_pending_free i \<noteq> 0 \<and> img_ref_count i = 1
               then image_at h s' = Inl Use_after_free
                  \<and> freed s' = freed s @ [iaddr i]
                  \<and> destroyed_textures s' = destroyed_textures s @ [img_tex i]
               else image_at h s' = Inr (i\<lparr>img_ref_count := img_ref_count i - 1\<rparr>)
                  \<and> freed s' = freed s
                  \<and> destroyed_textures s' = destroyed_textures s)"
proof -
  let ?u = "\<lambda>i. i\<lparr>img_ref_count := img_ref_count i - 1\<rparr>"
  define s1 where "s1 = update_image (iaddr i) ?u s"
  have h: "h = Some (iaddr i)" using image_at_addr [OF at] .
  have at1: "image_at h s1 = Inr (?u i)"
    unfolding s1_def by (rule image_at_update_image [OF _ at]) simp
  have f1: "freed s1 = freed s" "destroyed_textures s1 = destroyed_textures s"
    by (simp_all add: s1_def update_image_def)
  have d1: "distinct (map iaddr (loaded_images_list s1))"
    using d by (simp add: s1_def update_image_def comp_def if_distrib cong: if_cong)
  show ?thesis
  proof (cases "img_pending_free i \<noteq> 0 \<and> img_ref_count i = 1")
    case True
    then have z: "img_ref_count i - 1 = 0" by simp
    define s2 where "s2 = s1\<lparr>loaded_images_list := remove_image (iaddr i) (loaded_images_list s1),
                             destroyed_textures := destroyed_textures s1 @ [img_tex i],
                             freed := freed s1 @ [iaddr i]\<rparr>"
    have fr: "freeLoadedImage h s1 = Inr (0, None, s2)"
      using at1 by (auto simp: freeLoadedImage_def image_at_def h s2_def split: option.splits)
    have "vPutLoadedImage h s = Inr s2"
      using at True z fr by (simp add: vPutLoadedImage_def Let_def s1_def [symmetric])
    moreover have "image_at h s2 = Inl Use_after_free"
      using remove_image_not_found [OF d1, of "iaddr i"]
      by (simp add: image_at_def h s2_def)
    moreover have "freed s2 = freed s @ [iaddr i]"
      "destroyed_textures s2 = destroyed_textures s @ [img_tex i]"
      by (simp_all add: s2_def f1)
    ultimately show ?thesis using True by (intro exI [of _ s2]) simp
  next
    case False
    then have "\<not> (img_pending_free i \<noteq> 0 \<and> img_ref_count i - 1 = 0)"
      by auto
    then have "vPutLoadedImage h s = Inr s1"
      using at by (auto simp: vPutLoadedImage_def Let_def s1_def [symmetric])
    then show ?thesis using False at1 f1 by (intro exI [of _ s1]) simp
  qed
qed


text \<open>With a \<open>NULL\<close> handle \<open>gfxFontPutFontHandle\<close> changes nothing, but it walks the
  list, over a freed node too when one is still linked.\<close>

lemma put_font_nodes_no_match:
  "put_font_nodes (\<lambda>f. False) fr fs
     = (if list_ex (\<lambda>g. faddr g \<in> set fr) fs then Inl Use_after_free else Inr (fs, None))"
  by (induction fs) simp_all

lemma gfxFontPutFontHandle_null:
  "gfxFontPutFontHandle None s
     = (if list_ex (\<lambda>g. faddr g \<in> set (freed s)) (font_list s) then Inl Use_after_free
        else Inr s)"
  by (simp add: gfxFontPutFontHandle_def put_font_def put_font_nodes_no_match)


section \<open>Dispatch in the order of the requests\<close>

lemma extends_refl [simp]: "extends s s"
  by (simp add: extends_def)

lemma extends_pushed:
  assumes "job_list s1 = job_list s @ [z]"
  shows "extends s s1" and "extends s (set_job j s1)"
  using assms by (simp_all add: extends_def set_job_def)

lemma INIT_JOB_cases:
  assumes "INIT_JOB al z s = Inr r"
  shows "r = None \<or> (\<exists>s1. r = Some s1 \<and> s1 = s\<lparr>job_list := job_list s @ [z]\<rparr>)"
  using assms by (auto simp: INIT_JOB_def pushDrawJob_def set_job_def split: if_splits)

lemma simple_request_extends:
  assumes "(case INIT_JOB al z s of Inl f \<Rightarrow> Inl f | Inr None \<Rightarrow> Inr (-1, s)
            | Inr (Some s1) \<Rightarrow> Inr (0, set_job j s1)) = Inr (ret, s')"
  shows "extends s s'"
proof (cases "INIT_JOB al z s")
  case (Inl f)
  with assms show ?thesis by simp
next
  case (Inr r)
  from INIT_JOB_cases [OF Inr] assms Inr show ?thesis
    by (auto simp: extends_pushed)
qed


lemma update_image_extends:
  "job_list s1 = job_list s @ [z] \<Longrightarrow> extends s (set_job j (update_image a u s1))"
  by (simp add: extends_def set_job_def update_image_def)

lemma gfxDrawText_extends:
  assumes "gfxDrawText al str x y colour s = Inr (ret, s')"
  shows "extends s s'"
proof (cases str)
  case None
  with assms show ?thesis by (simp add: gfxDrawText_def)
next
  case (Some st)
  show ?thesis
  proof (cases "st = []")
    case True
    with assms Some show ?thesis by (simp add: gfxDrawText_def)
  next
    case False
    show ?thesis
    proof (cases "INIT_JOB al (DRAW_TEXT zero_text) s")
      case (Inl f)
      with assms Some False show ?thesis by (simp add: gfxDrawText_def)
    next
      case (Inr r)
      from INIT_JOB_cases [OF Inr] show ?thesis
      proof
        assume "r = None"
        with assms Some False Inr show ?thesis by (simp add: gfxDrawText_def)
      next
        assume "\<exists>s1. r = Some s1 \<and> s1 = s\<lparr>job_list := job_list s @ [DRAW_TEXT zero_text]\<rparr>"
        then obtain s1 where r: "r = Some s1"
          and s1: "job_list s1 = job_list s @ [DRAW_TEXT zero_text]"
          by auto
        show ?thesis
        proof (cases "payload_alloc al")
          case False
          with assms Some \<open>st \<noteq> []\<close> Inr r have "s' = s1"
            by (simp add: gfxDrawText_def)
          with s1 show ?thesis by (simp add: extends_pushed)
        next
          case True
          with assms Some \<open>st \<noteq> []\<close> Inr r obtain fnt s2 j where
            g: "gfxFontGetCurFont s1 = Inr (fnt, s2)" and s': "s' = set_job j s2"
            by (auto simp: gfxDrawText_def split: sum.splits)
          have "job_list s2 = job_list s @ [DRAW_TEXT zero_text]"
            using gfxFontGetCurFont_frame(1) [OF g] s1 by simp
          then show ?thesis
            unfolding s' by (rule extends_pushed)
        qed
      qed
    qed
  qed
qed

lemma gfxDrawCenteredText_extends:
  assumes "gfxDrawCenteredText te al str x y colour s = Inr (ret, s')"
  shows "extends s s'"
proof (cases "gfxGetTextSize te str s")
  case (Inl f)
  with assms show ?thesis by (simp add: gfxDrawCenteredText_def)
next
  case (Inr r)
  obtain sz s1 where r: "r = (sz, s1)" by (cases r)
  have q: "job_list s1 = job_list s"
    using gfxGetTextSize_frame Inr r by simp
  show ?thesis
  proof (cases sz)
    case None
    with assms Inr r have "s' = s1" by (simp add: gfxDrawCenteredText_def)
    with q show ?thesis by (simp add: extends_def)
  next
    case (Some wh)
    with assms Inr r obtain x' y' where "gfxDrawText al str x' y' colour s1 = Inr (ret, s')"
      by (auto simp: gfxDrawCenteredText_def split: prod.splits)
    then have "extends s1 s'" by (rule gfxDrawText_extends)
    with q show ?thesis by (simp add: extends_def)
  qed
qed

lemma request_extends:
  assumes "run_request r s = Inr (ret, s')"
  shows "extends s s'"
proof (cases r)
  case (Clear_request al colour)
  with assms show ?thesis
    by (auto simp: gfxDrawClear_def intro: simple_request_extends)
next
  case (Box_request al x y w h colour)
  with assms show ?thesis
    by (auto simp: gfxDrawBox_def intro: simple_request_extends)
next
  case (FilledBox_request al x y w h colour)
  with assms show ?thesis
    by (auto simp: gfxDrawFilledBox_def intro: simple_request_extends)
next
  case (Circle_request al x y radius colour)
  with assms show ?thesis
    by (auto simp: gfxDrawCircle_def intro: simple_request_extends)
next
  case (Ellipse_request al x y rx ry colour)
  with assms show ?thesis
    by (auto simp: gfxDrawEllipse_def intro: simple_request_extends)
next
  case (Arc_request al x y radius start en colour)
  with assms show ?thesis
    by (auto simp: gfxDrawArc_def intro: simple_request_extends)
next
  case (Line_request al x1 y1 x2 y2 thickness colour)
  with assms show ?thesis
    by (auto simp: gfxDrawLine_def intro: simple_request_extends)
next
  case (Arrow_request al x1 y1 x2 y2 head_length thickness colour)
  with assms show ?thesis
    by (auto simp: gfxDrawArrow_def intro: simple_request_extends)
next
  case (Poly_request al points n colour)
  then have a: "gfxDrawPoly al points n colour s = Inr (ret, s')" using assms by simp
  show ?thesis
  proof (cases "INIT_JOB al (DRAW_POLY zero_poly) s")
    case (Inl f)
    with a show ?thesis by (simp add: gfxDrawPoly_def)
  next
    case (Inr r)
    from INIT_JOB_cases [OF Inr] a Inr show ?thesis
      by (auto simp: gfxDrawPoly_def extends_pushed split: if_splits option.splits)
  qed
next
  case (Triangle_request al points colour)
  then have a: "gfxDrawTriangle al points colour s = Inr (ret, s')" using assms by simp
  show ?thesis
  proof (cases "INIT_JOB al (DRAW_TRIANGLE zero_triangle) s")
    case (Inl f)
    with a show ?thesis by (simp add: gfxDrawTriangle_def)
  next
    case (Inr r)
    from INIT_JOB_cases [OF Inr] a Inr show ?thesis
      by (auto simp: gfxDrawTriangle_def extends_pushed split: if_splits option.splits)
  qed
next
  case (Text_request al str x y colour)
  with assms show ?thesis by (auto intro: gfxDrawText_extends)
next
  case (CenteredText_request te al str x y colour)
  with assms show ?thesis by (auto intro: gfxDrawCenteredText_extends)
next
  case (Image_request al abs_path x y)
  then have a: "gfxDrawImage al abs_path x y s = Inr (ret, s')" using assms by simp
  show ?thesis
  proof (cases "INIT_JOB al (DRAW_IMAGE zero_image) s")
    case (Inl f)
    with a show ?thesis by (simp add: gfxDrawImage_def)
  next
    case (Inr r)
    from INIT_JOB_cases [OF Inr] a Inr show ?thesis
      by (auto simp: gfxDrawImage_def extends_pushed split: if_splits option.splits)
  qed
next
  case (ScaledImage_request al abs_path x y scale)
  then have a: "gfxDrawScaledImage al abs_path x y scale s = Inr (ret, s')" using assms by simp
  show ?thesis
  proof (cases "INIT_JOB al (DRAW_SCALED_IMAGE zero_scaled_image) s")
    case (Inl f)
    with a show ?thesis by (simp add: gfxDrawScaledImage_def)
  next
    case (Inr r)
    from INIT_JOB_cases [OF Inr] a Inr show ?thesis
      by (auto simp: gfxDrawScaledImage_def extends_pushed split: if_splits option.splits)
  qed
next
  case (LoadedImage_request al img x y)
  then have a: "gfxDrawLoadedImage al img x y s = Inr (ret, s')" using assms by simp
  show ?thesis
  proof (cases "INIT_JOB al (DRAW_LOADED_IMAGE \<lparr>loaded_image_img = None, loaded_image_x = 0,
                  loaded_image_y = 0\<rparr>) s")
    case (Inl f)
    with a show ?thesis by (simp add: gfxDrawLoadedImage_def split: if_splits)
  next
    case (Inr r)
    from INIT_JOB_cases [OF Inr] a Inr show ?thesis
      by (auto simp: gfxDrawLoadedImage_def update_image_extends
               split: if_splits sum.splits)
  qed
next
  case (Sprite_request al sheet column row x y)
  then have a: "gfxDrawSprite al sheet column row x y s = Inr (ret, s')" using assms by simp
  show ?thesis
  proof (cases "INIT_JOB al (DRAW_LOADED_IMAGE_CROP zero_crop) s")
    case (Inl f)
    with a show ?thesis by (auto simp: gfxDrawSprite_def split: option.splits if_splits)
  next
    case (Inr r)
    from INIT_JOB_cases [OF Inr] a Inr show ?thesis
      by (auto simp: gfxDrawSprite_def update_image_extends
               split: option.splits if_splits sum.splits)
  qed
next
  case (AnimationFrame_request al sequence ms_timestep x y)
  then obtain anim where
    a: "gfxDrawAnimationDrawFrame al sequence ms_timestep x y s = Inr (ret, anim, s')"
    using assms by (auto split: sum.splits)
  show ?thesis
  proof (cases "INIT_JOB al (DRAW_LOADED_IMAGE_CROP zero_crop) s")
    case (Inl f)
    with a show ?thesis
      by (auto simp: gfxDrawAnimationDrawFrame_def split: option.splits sum.splits)
  next
    case (Inr r)
    from INIT_JOB_cases [OF Inr] a Inr show ?thesis
      by (auto simp: gfxDrawAnimationDrawFrame_def update_image_extends Let_def
               split: option.splits if_splits sum.splits)
  qed
qed


lemma enqueued_by_suffix:
  assumes "run_request r s = Inr (ret, s')"
  shows "job_list s' = job_list s @ enqueued_by r s"
proof -
  from request_extends [OF assms] obtain new where "job_list s' = job_list s @ new"
    by (auto simp: extends_def)
  then show ?thesis using assms by (simp add: enqueued_by_def)
qed

lemma run_requests_enqueued:
  assumes "run_requests rs s = Inr s1"
  shows "job_list s1 = job_list s @ enqueued rs s"
  using assms
proof (induction rs arbitrary: s)
  case Nil
  then show ?case by simp
next
  case (Cons r rs)
  then obtain ret sa where r: "run_request r s = Inr (ret, sa)"
    and rest: "run_requests rs sa = Inr s1"
    by (auto split: sum.splits)
  from Cons.IH [OF rest] enqueued_by_suffix [OF r] r show ?case
    by simp
qed

lemma update_screen_trace:
  assumes "gfxDrawUpdateScreen e s = Inr (0, s')" and "\<not> fps_hold e"
  shows "draw_trace s' = draw_trace s
           @ concat (map (dispatched (global_offset_x s) (global_offset_y s)) (job_list s))
         \<and> job_list s' = []"
proof (cases "job_list s = []")
  case True
  with assms show ?thesis
    by (auto simp: gfxDrawUpdateScreen_def waitingDrawJobs_def split: if_splits)
next
  case False
  with assms have "drain_jobs e s = Inr (0, s')"
    by (auto simp: gfxDrawUpdateScreen_def waitingDrawJobs_def split: if_splits)
  then show ?thesis using drain_jobs_trace by blast
qed

lemma clear_then_box:
  assumes q: "job_list s = []" and al: "job_alloc al" "data_alloc al"
    and e: "is_gl_thread e" "\<not> fps_hold e" "offset_lock_ok e"
  shows "\<exists>s1 s2.
           run_requests [Clear_request al 0xFFFFFF, FilledBox_request al 10 10 20 20 0xFF0000] s
             = Inr s1
         \<and> gfxDrawUpdateScreen e s1 = Inr (0, s2)
         \<and> draw_trace s2 = draw_trace s
             @ [Clear 0xFFFFFF,
                Filled_rect (add_offset 10 (global_offset_x s)) (add_offset 10 (global_offset_y s))
                  20 20 0xFF0000]"
proof -
  define c where "c = DRAW_CLEAR \<lparr>clear_colour = 0xFFFFFF\<rparr>"
  define b where "b = DRAW_FILLED_RECT \<lparr>rect_x = 10, rect_y = 10, rect_w = 20, rect_h = 20,
                        rect_colour = 0xFF0000\<rparr>"
  define s1 where "s1 = s\<lparr>job_list := [c, b]\<rparr>"
  define t1 where "t1 = emit (Clear 0xFFFFFF) (s\<lparr>job_list := [b]\<rparr>)"
  define t2 where "t2 = emit (Filled_rect (add_offset 10 (global_offset_x s))
                              (add_offset 10 (global_offset_y s)) 20 20 0xFF0000)
                          (t1\<lparr>job_list := []\<rparr>)"
  have 1: "run_requests [Clear_request al 0xFFFFFF,
             FilledBox_request al 10 10 20 20 0xFF0000] s = Inr s1"
    using q al
    by (simp add: gfxDrawClear_def gfxDrawFilledBox_def INIT_JOB_pushed set_job_def s1_def
          c_def b_def)
  have h1: "vHandleDrawJob e c (s1\<lparr>job_list := [b]\<rparr>) = Inr (0, t1)"
    using e(3) by (simp add: vHandleDrawJob_def clearDisplay_def c_def s1_def t1_def)
  have q1: "job_list t1 = [b]" "global_offset_x t1 = global_offset_x s"
    "global_offset_y t1 = global_offset_y s" "draw_trace t1 = draw_trace s @ [Clear 0xFFFFFF]"
    by (simp_all add: t1_def)
  have h2: "vHandleDrawJob e b (t1\<lparr>job_list := []\<rparr>) = Inr (0, t2)"
    using e(3) by (simp add: vHandleDrawJob_def drawFilledRectangle_def b_def q1 t2_def)
  have q2: "job_list t2 = []" "draw_trace t2 = draw_trace s
      @ [Clear 0xFFFFFF, Filled_rect (add_offset 10 (global_offset_x s))
           (add_offset 10 (global_offset_y s)) 20 20 0xFF0000]"
    by (simp_all add: t2_def q1)
  have d2: "drain_jobs e t2 = Inr (0, t2\<lparr>presented := Suc (presented t2)\<rparr>)"
    using q2(1) by (rule drain_jobs_Nil)
  have d1: "drain_jobs e t1 = Inr (0, t2\<lparr>presented := Suc (presented t2)\<rparr>)"
    using drain_jobs_Cons [OF q1(1), of e] h2 d2 by (simp add: b_def)
  have "job_list s1 = [c, b]" by (simp add: s1_def)
  then have d0: "drain_jobs e s1 = Inr (0, t2\<lparr>presented := Suc (presented t2)\<rparr>)"
    using drain_jobs_Cons [of s1 c "[b]" e] h1 d1 by (simp add: c_def)
  have 2: "gfxDrawUpdateScreen e s1 = Inr (0, t2\<lparr>presented := Suc (presented t2)\<rparr>)"
    using e d0 by (simp add: gfxDrawUpdateScreen_def waitingDrawJobs_def s1_def)
  have 3: "draw_trace (t2\<lparr>presented := Suc (presented t2)\<rparr>) = draw_trace s
      @ [Clear 0xFFFFFF, Filled_rect (add_offset 10 (global_offset_x s))
           (add_offset 10 (global_offset_y s)) 20 20 0xFF0000]"
    by (simp add: q2)
  from 1 2 3 show ?thesis
    by (intro exI conjI) assumption+
qed

text \<open>
  Claim C1. Draw requests are run one after the other from a state \<open>s0\<close>, and then a
  single screen update that the frame limiter does not hold back returns 0. Then the
  queue at the update is the queue of \<open>s0\<close> followed by the jobs that the requests
  appended, request by request; the renderer receives the calls of exactly these jobs
  in this order, each under the offset current at the update; and the queue is empty
  afterwards. In particular, \<open>clear(White)\<close> followed by
  \<open>filled_rect(10, 10, 20, 20, Red)\<close> on an empty queue and one update on the thread
  that holds the GL context give the renderer exactly the two calls, in this order:
  the clear in white and the filled rectangle in red, 20 by 20, at 10 plus the offset
  on each axis.
\<close>

theorem jobs_dispatched_in_enqueue_order:
  "(run_requests rs s0 = Inr s1 \<and> \<not> fps_hold e \<and> gfxDrawUpdateScreen e s1 = Inr (0, s2)
      \<longrightarrow> job_list s1 = job_list s0 @ enqueued rs s0
          \<and> draw_trace s2 = draw_trace s1
               @ concat (map (dispatched (global_offset_x s1) (global_offset_y s1))
                           (job_list s0 @ enqueued rs s0))
          \<and> job_list s2 = [])
   \<and> (job_list s = [] \<and> job_alloc al \<and> data_alloc al
        \<and> is_gl_thread e \<and> \<not> fps_hold e \<and> offset_lock_ok e
      \<longrightarrow> (\<exists>s1 s2.
             run_requests [Clear_request al 0xFFFFFF,
                           FilledBox_request al 10 10 20 20 0xFF0000] s = Inr s1
           \<and> gfxDrawUpdateScreen e s1 = Inr (0, s2)
           \<and> draw_trace s2 = draw_trace s
               @ [Clear 0xFFFFFF,
                  Filled_rect (add_offset 10 (global_offset_x s))
                    (add_offset 10 (global_offset_y s)) 20 20 0xFF0000]))"
proof (intro conjI impI)
  assume h: "run_requests rs s0 = Inr s1 \<and> \<not> fps_hold e
               \<and> gfxDrawUpdateScreen e s1 = Inr (0, s2)"
  then have q: "job_list s1 = job_list s0 @ enqueued rs s0"
    by (simp add: run_requests_enqueued)
  then show "job_list s1 = job_list s0 @ enqueued rs s0" .
  from h have u: "gfxDrawUpdateScreen e s1 = Inr (0, s2)" and f: "\<not> fps_hold e"
    by simp_all
  from update_screen_trace [OF u f] q
  show "draw_trace s2 = draw_trace s1
          @ concat (map (dispatched (global_offset_x s1) (global_offset_y s1))
                      (job_list s0 @ enqueued rs s0))"
    and "job_list s2 = []"
    by simp_all
next
  assume "job_list s = [] \<and> job_alloc al \<and> data_alloc al
            \<and> is_gl_thread e \<and> \<not> fps_hold e \<and> offset_lock_ok e"
  then show "\<exists>s1 s2.
             run_requests [Clear_request al 0xFFFFFF,
                           FilledBox_request al 10 10 20 20 0xFF0000] s = Inr s1
           \<and> gfxDrawUpdateScreen e s1 = Inr (0, s2)
           \<and> draw_trace s2 = draw_trace s
               @ [Clear 0xFFFFFF,
                  Filled_rect (add_offset 10 (global_offset_x s))
                    (add_offset 10 (global_offset_y s)) 20 20 0xFF0000]"
    using clear_then_box [of s al e] by simp
qed


theorem jobs_dispatched_in_enqueue_order_witness:
  "\<exists>s1 s2.
     run_requests [Clear_request all_ok 0xFFFFFF,
                   FilledBox_request all_ok 10 10 20 20 0xFF0000] panned_state = Inr s1
   \<and> gfxDrawUpdateScreen gl_env s1 = Inr (0, s2)
   \<and> job_list s1 = enqueued [Clear_request all_ok 0xFFFFFF,
                               FilledBox_request all_ok 10 10 20 20 0xFF0000] panned_state
   \<and> draw_trace s2 = [Clear 0xFFFFFF, Filled_rect 13 15 20 20 0xFF0000]
   \<and> job_list s2 = []"
proof -
  let ?rs = "[Clear_request all_ok 0xFFFFFF, FilledBox_request all_ok 10 10 20 20 0xFF0000]"
  have p: "job_list panned_state = []" "draw_trace panned_state = []"
    "global_offset_x panned_state = 3" "global_offset_y panned_state = 5"
    by (simp_all add: panned_state_def demo_state_def)
  have a: "job_alloc all_ok" "data_alloc all_ok"
    by (simp_all add: all_ok_def)
  have e: "is_gl_thread gl_env" "\<not> fps_hold gl_env" "offset_lock_ok gl_env"
    by (simp_all add: gl_env_def)
  have o: "add_offset 10 3 = 13" "add_offset 10 5 = 15"
    by (simp_all add: add_offset_def short_of_int_def int_of_short_def)
  have "\<exists>s1 s2. run_requests ?rs panned_state = Inr s1
           \<and> gfxDrawUpdateScreen gl_env s1 = Inr (0, s2)
           \<and> draw_trace s2 = draw_trace panned_state
               @ [Clear 0xFFFFFF,
                  Filled_rect (add_offset 10 (global_offset_x panned_state))
                    (add_offset 10 (global_offset_y panned_state)) 20 20 0xFF0000]"
    by (rule jobs_dispatched_in_enqueue_order [THEN conjunct2, THEN mp]) (simp add: p a e)
  then show ?thesis
  proof (elim exE conjE)
    fix s1 s2
    assume r: "run_requests ?rs panned_state = Inr s1"
      and u: "gfxDrawUpdateScreen gl_env s1 = Inr (0, s2)"
      and t: "draw_trace s2 = draw_trace panned_state
               @ [Clear 0xFFFFFF,
                  Filled_rect (add_offset 10 (global_offset_x panned_state))
                    (add_offset 10 (global_offset_y panned_state)) 20 20 0xFF0000]"
    have "job_list s1 = job_list panned_state @ enqueued ?rs panned_state \<and>
          draw_trace s2 = draw_trace s1
            @ concat (map (dispatched (global_offset_x s1) (global_offset_y s1))
                        (job_list panned_state @ enqueued ?rs panned_state)) \<and>
          job_list s2 = []"
      using r u e(2)
      by (intro jobs_dispatched_in_enqueue_order [THEN conjunct1, THEN mp] conjI)
    then have q: "job_list s1 = enqueued ?rs panned_state" "job_list s2 = []"
      using p(1) by simp_all
    have t': "draw_trace s2 = [Clear 0xFFFFFF, Filled_rect 13 15 20 20 0xFF0000]"
      using t by (simp only: p o append_Nil)
    from r u q t' show ?thesis
      by (intro exI [of _ s1] exI [of _ s2] conjI)
  qed
qed


end
